theory Spec2Isabelle
  imports Complex_Main "HOL-Library.Word" "HOL-Library.Log_Nat"
begin

section \<open>Data model (types.ts and the state of the App component)\<close>

text \<open>
  JavaScript numbers are binary64 floating point numbers. The handlers are modelled in
  exact rational arithmetic, the arithmetic in which the properties of the pan/zoom
  transform are meant; for \<open>fitImageToScreen\<close> the computation in binary64, every
  operation rounded, is modelled beside it (\<open>fitImageToScreen_binary64\<close>). A division
  whose divisor is zero gives NaN or an infinity in JavaScript, which no rational stands
  for, and the model does not follow a computation through such a value: a function that
  divides returns \<open>None\<close> when a divisor is zero, and \<open>Some\<close> of its result otherwise.
  Record fields that would clash with variable names or library constants carry a prefix:
  \<open>p_x\<close>, \<open>p_y\<close> for \<open>Point\<close>, \<open>t_x\<close>, \<open>t_y\<close>, \<open>t_k\<close> for \<open>Transform\<close>,
  \<open>rect_left\<close>, ... for a \<open>DOMRect\<close>.
\<close>

datatype ToolType = BRUSH | HAND

record Point =
  p_x :: rat
  p_y :: rat

record Transform =
  t_x :: rat
  t_y :: rat
  t_k :: rat

datatype AppState = IDLE | PROCESSING | COMPARING

datatype SourceType = image_source | text_source

record ObjectSource =
  os_type :: SourceType
  os_data :: string
  previewUrl :: "string option"

type_synonym byte = "8 word"

text \<open>
  \<open>ImageData\<close>: width, height and the flat RGBA byte array (\<open>Uint8ClampedArray\<close>, four
  bytes per pixel, row major). The bitmap of a canvas is modelled by the same record.
\<close>

record ImageData =
  width :: nat
  height :: nat
  data :: "byte list"

record DOMRect =
  rect_left :: rat
  rect_top :: rat
  rect_width :: rat
  rect_height :: rat

text \<open>The container element: its bounding client rectangle and its client size.\<close>

record Container =
  boundingClientRect :: DOMRect
  clientWidth :: rat
  clientHeight :: rat

record MouseEvent =
  clientX :: rat
  clientY :: rat

record WheelEvent = MouseEvent +
  deltaY :: rat

text \<open>
  The state of \<open>App\<close>: the \<open>useState\<close> cells the handlers read or write, and the refs
  (\<open>maskCanvasRef\<close>, \<open>containerRef\<close>, \<open>isDraggingRef\<close>, \<open>lastPosRef\<close>), \<open>None\<close> for
  \<open>null\<close>. \<open>pendingLoads\<close> counts the \<open>Image\<close> objects that the mask canvas effect has
  created and whose \<open>onload\<close> has not run yet.
\<close>

record App =
  appState :: AppState
  baseImage :: "string option"
  processedImage :: "string option"
  tool :: ToolType
  brushSize :: rat
  transform :: Transform
  history :: "ImageData list"
  objectSource :: "ObjectSource option"
  selectedModel :: string
  maskCanvasRef :: "ImageData option"
  containerRef :: "Container option"
  isDraggingRef :: bool
  lastPosRef :: "Point option"
  pendingLoads :: nat

definition initialApp :: "Container option \<Rightarrow> App" where
  "initialApp c =
     \<lparr>appState = IDLE, baseImage = None, processedImage = None, tool = BRUSH,
      brushSize = 30, transform = \<lparr>t_x = 0, t_y = 0, t_k = 1\<rparr>, history = [],
      objectSource = None, selectedModel = ''gemini-3-pro-image-preview'',
      maskCanvasRef = None, containerRef = c, isDraggingRef = False, lastPosRef = None,
      pendingLoads = 0\<rparr>"

section \<open>Pan and zoom\<close>

text \<open>
  \<open>fitImageToScreen\<close>: no container, no change; the two divisions are by \<open>w\<close> and \<open>h\<close>.
\<close>

definition fitImageToScreen :: "App \<Rightarrow> rat \<Rightarrow> rat \<Rightarrow> App option" where
  "fitImageToScreen s w h =
     (case containerRef s of
        None \<Rightarrow> Some s
      | Some c \<Rightarrow>
          (let cw = clientWidth c; ch = clientHeight c; padding = 40 in
           if w = 0 \<or> h = 0 then None
           else
             (let scale = min ((cw - padding) / w) ((ch - padding) / h) in
              Some (s\<lparr>transform :=
                        \<lparr>t_x = (cw - w * scale) / 2, t_y = (ch - h * scale) / 2,
                         t_k = scale\<rparr>\<rparr>))))"

text \<open>
  The same function as JavaScript computes it. \<open>binary64 x\<close> is the double nearest to
  \<open>x\<close>, a tie going to the even significand: with \<open>2 ^ e\<close> the unit in the last of the 53
  bits of the significand, \<open>x / 2 ^ e\<close> is rounded to an integer. The exponent range is
  not modelled (no overflow, no subnormal numbers); sizes in pixels are far from both.
  Every operation of lines 87 to 91 rounds its exact result; \<open>Math.min\<close> does not round.
\<close>

definition pow2 :: "int \<Rightarrow> rat" where
  "pow2 n = (if 0 \<le> n then 2 ^ nat n else 1 / 2 ^ nat (- n))"

definition roundHalfEven :: "rat \<Rightarrow> int" where
  "roundHalfEven x =
     (let f = \<lfloor>x\<rfloor>; d = x - of_int f
      in if d < 1 / 2 then f else if 1 / 2 < d then f + 1 else if even f then f else f + 1)"

text \<open>\<open>log2floor x\<close>, for positive \<open>x\<close>: the \<open>n\<close> with \<open>2 ^ n \<le> x < 2 ^ (n + 1)\<close>.\<close>

definition log2floor :: "rat \<Rightarrow> int" where
  "log2floor x =
     (let (p, q) = quotient_of x; n = bitlen p - bitlen q
      in if pow2 n \<le> x then n else n - 1)"

definition binary64 :: "rat \<Rightarrow> rat" where
  "binary64 x =
     (if x = 0 then 0
      else
        (let e = log2floor \<bar>x\<bar> - 52;
             m = roundHalfEven (\<bar>x\<bar> / pow2 e)
         in sgn x * of_int m * pow2 e))"

definition fitImageToScreen_binary64 :: "App \<Rightarrow> rat \<Rightarrow> rat \<Rightarrow> App option" where
  "fitImageToScreen_binary64 s w h =
     (case containerRef s of
        None \<Rightarrow> Some s
      | Some c \<Rightarrow>
          (let cw = clientWidth c; ch = clientHeight c; padding = 40 in
           if w = 0 \<or> h = 0 then None
           else
             (let scale = min (binary64 (binary64 (cw - padding) / w))
                              (binary64 (binary64 (ch - padding) / h))
              in Some (s\<lparr>transform :=
                        \<lparr>t_x = binary64 (binary64 (cw - binary64 (w * scale)) / 2),
                         t_y = binary64 (binary64 (ch - binary64 (h * scale)) / 2),
                         t_k = scale\<rparr>\<rparr>))))"

text \<open>
  The transform \<open>draw\<close> installs before it draws the image and the mask:
  \<open>ctx.translate(transform.x, transform.y); ctx.scale(transform.k, transform.k)\<close>.
  A point drawn at image coordinates \<open>p\<close> lands on the canvas at \<open>k * p + (x, y)\<close>.
  The canvas fills the container from its top left corner, so canvas coordinates are
  positions relative to the container.
\<close>

definition drawTransform :: "Transform \<Rightarrow> Point \<Rightarrow> Point" where
  "drawTransform t p = \<lparr>p_x = t_k t * p_x p + t_x t, p_y = t_k t * p_y p + t_y t\<rparr>"

definition getImageCoords :: "App \<Rightarrow> 'a MouseEvent_scheme \<Rightarrow> Point option" where
  "getImageCoords s e =
     (case containerRef s of
        None \<Rightarrow> Some \<lparr>p_x = 0, p_y = 0\<rparr>
      | Some c \<Rightarrow>
          (let rect = boundingClientRect c;
               cx = clientX e - rect_left rect;
               cy = clientY e - rect_top rect
           in if t_k (transform s) = 0 then None
              else Some \<lparr>p_x = (cx - t_x (transform s)) / t_k (transform s),
                         p_y = (cy - t_y (transform s)) / t_k (transform s)\<rparr>))"

text \<open>
  The position of a mouse event relative to the container (\<open>cx\<close>, \<open>cy\<close> in
  \<open>getImageCoords\<close>, \<open>mouseX\<close>, \<open>mouseY\<close> in \<open>handleWheel\<close>), and the event
  that happens at a given position of the container.
\<close>

definition containerPoint :: "Container \<Rightarrow> 'a MouseEvent_scheme \<Rightarrow> Point" where
  "containerPoint c e = \<lparr>p_x = clientX e - rect_left (boundingClientRect c),
                         p_y = clientY e - rect_top (boundingClientRect c)\<rparr>"

definition eventAt :: "Container \<Rightarrow> Point \<Rightarrow> MouseEvent" where
  "eventAt c q = \<lparr>clientX = rect_left (boundingClientRect c) + p_x q,
                  clientY = rect_top (boundingClientRect c) + p_y q\<rparr>"

definition zoomIntensity :: rat where
  "zoomIntensity = 1 / 10"

definition wheelDelta :: "WheelEvent \<Rightarrow> rat" where
  "wheelDelta e = (if deltaY e > 0 then 1 - zoomIntensity else 1 + zoomIntensity)"

text \<open>
  \<open>handleWheel\<close>: ignored unless the app is idle and the container is mounted. The
  updater divides by the previous scale.
\<close>

definition handleWheel :: "App \<Rightarrow> WheelEvent \<Rightarrow> App option" where
  "handleWheel s e =
     (if appState s \<noteq> IDLE then Some s
      else
        (let delta = wheelDelta e in
         case containerRef s of
           None \<Rightarrow> Some s
         | Some c \<Rightarrow>
             (let rect = boundingClientRect c;
                  mouseX = clientX e - rect_left rect;
                  mouseY = clientY e - rect_top rect;
                  prev = transform s;
                  newK = max (1 / 10) (min (t_k prev * delta) 5)
              in if t_k prev = 0 then None
                 else
                   (let kRatio = newK / t_k prev in
                    Some (s\<lparr>transform :=
                              \<lparr>t_x = mouseX - (mouseX - t_x prev) * kRatio,
                               t_y = mouseY - (mouseY - t_y prev) * kRatio,
                               t_k = newK\<rparr>\<rparr>)))))"

text \<open>A run of wheel events, each applied to the state the previous one left.\<close>

fun wheelEvents :: "App \<Rightarrow> WheelEvent list \<Rightarrow> App option" where
  "wheelEvents s [] = Some s"
| "wheelEvents s (e # es) =
     (case handleWheel s e of None \<Rightarrow> None | Some s' \<Rightarrow> wheelEvents s' es)"

definition scaleInBounds :: "App \<Rightarrow> bool" where
  "scaleInBounds s \<longleftrightarrow> 1 / 10 \<le> t_k (transform s) \<and> t_k (transform s) \<le> 5"

section \<open>The comparison slider\<close>

text \<open>
  The slider position is a JavaScript number that can be NaN (\<open>0 / 0\<close> when the container
  has width zero): \<open>None\<close> is NaN.
\<close>

record Slider =
  sliderPosition :: "rat option"
  isDragging :: bool
  sliderContainerRef :: "DOMRect option"

definition initialSlider :: "DOMRect option \<Rightarrow> Slider" where
  "initialSlider r = \<lparr>sliderPosition = Some 50, isDragging = False, sliderContainerRef = r\<rparr>"

definition slider_handleMouseMove :: "Slider \<Rightarrow> 'a MouseEvent_scheme \<Rightarrow> Slider" where
  "slider_handleMouseMove sl e =
     (if \<not> isDragging sl then sl
      else
        (case sliderContainerRef sl of
           None \<Rightarrow> sl
         | Some rect \<Rightarrow>
             (let x = max 0 (min (clientX e - rect_left rect) (rect_width rect));
                  percentage =
                    (if rect_width rect = 0 then None
                     else Some ((x / rect_width rect) * 100))
              in sl\<lparr>sliderPosition := percentage\<rparr>)))"

section \<open>The canvas API, as far as the handlers use it\<close>

text \<open>
  Exceptions are values. \<open>Returned s\<close> is a handler that ran to its end in state \<open>s\<close>;
  \<open>Threw e s\<close> is one that an uncaught exception \<open>e\<close> left in state \<open>s\<close>.
\<close>

datatype error =
    IndexSizeError
  | InvalidStateError
  | MaskGenerationFailed
  | RemoteError string

datatype 'a outcome = Returned 'a | Threw error 'a

fun stateOf :: "'a outcome \<Rightarrow> 'a" where
  "stateOf (Returned s) = s"
| "stateOf (Threw e s) = s"

text \<open>
  A canvas is its bitmap. \<open>getContext('2d')\<close> on a canvas that only ever had a 2d
  context does not return \<open>null\<close>, so a context is there whenever the canvas is.
  \<^item> \<open>createCanvas\<close>: a new canvas is transparent black.
  \<^item> \<open>clearRect\<close>: the source always clears the whole canvas.
  \<^item> \<open>getImageData\<close>: the source always reads the whole canvas; a zero width or height
    raises \<open>IndexSizeError\<close>.
  \<^item> \<open>putImageData img c\<close> writes \<open>img\<close> at the origin of \<open>c\<close>, clipped to \<open>c\<close>.
  \<^item> \<open>drawImage src dst\<close> is \<open>dst.drawImage(src, 0, 0)\<close> for a destination that is
    still transparent, its only use here: source-over composition on a transparent pixel
    leaves the source pixel. A source of zero width or height raises
    \<open>InvalidStateError\<close>. (A browser keeps the alpha byte exactly; the colour bytes of a
    partly transparent pixel may be rounded, and \<open>getMaskDataUrl\<close> reads alpha only.)
\<close>

definition createCanvas :: "nat \<Rightarrow> nat \<Rightarrow> ImageData" where
  "createCanvas w h = \<lparr>width = w, height = h, data = replicate (4 * w * h) 0\<rparr>"

definition clearRect :: "ImageData \<Rightarrow> ImageData" where
  "clearRect c = c\<lparr>data := replicate (length (data c)) 0\<rparr>"

definition getImageData :: "ImageData \<Rightarrow> error + ImageData" where
  "getImageData c = (if width c = 0 \<or> height c = 0 then Inl IndexSizeError else Inr c)"

definition putImageData :: "ImageData \<Rightarrow> ImageData \<Rightarrow> ImageData" where
  "putImageData img c =
     c\<lparr>data :=
          map (\<lambda>j. let p = j div 4; ch = j mod 4;
                       col = p mod width c; row = p div width c
                   in if col < width img \<and> row < height img
                      then data img ! (4 * (row * width img + col) + ch)
                      else data c ! j)
              [0..<length (data c)]\<rparr>"

definition drawImage :: "ImageData \<Rightarrow> ImageData \<Rightarrow> error + ImageData" where
  "drawImage src dst =
     (if width src = 0 \<or> height src = 0 then Inl InvalidStateError
      else Inr (putImageData src dst))"

text \<open>The bitmap is well formed when it holds four bytes for each pixel.\<close>

definition wellFormed :: "ImageData \<Rightarrow> bool" where
  "wellFormed c \<longleftrightarrow> length (data c) = 4 * width c * height c"

text \<open>Pixel \<open>p\<close> (row major) of a bitmap: its red, green, blue and alpha bytes.\<close>

definition pixel :: "ImageData \<Rightarrow> nat \<Rightarrow> byte \<times> byte \<times> byte \<times> byte" where
  "pixel c p = (data c ! (4 * p), data c ! (4 * p + 1), data c ! (4 * p + 2), data c ! (4 * p + 3))"

definition alphaOf :: "ImageData \<Rightarrow> nat \<Rightarrow> byte" where
  "alphaOf c p = data c ! (4 * p + 3)"

section \<open>The mask sent to the remote service\<close>

text \<open>
  The loop of \<open>getMaskDataUrl\<close> over the byte array, four bytes at a time. A read
  beyond the end of a typed array is \<open>undefined\<close>, and \<open>undefined > 0\<close> is false; a
  write beyond the end is dropped, as \<open>list_update\<close> does.
\<close>

function maskLoop :: "nat \<Rightarrow> byte list \<Rightarrow> byte list" where
  "maskLoop i d =
     (if i < length d then
        (let alpha = (if i + 3 < length d then Some (d ! (i + 3)) else None) in
         if (case alpha of None \<Rightarrow> False | Some a \<Rightarrow> a > 0)
         then maskLoop (i + 4) (d[i := 255, i + 1 := 255, i + 2 := 255, i + 3 := 255])
         else maskLoop (i + 4) (d[i := 0, i + 1 := 0, i + 2 := 0, i + 3 := 255]))
      else d)"
  by pat_completeness auto
termination
  by (relation "measure (\<lambda>(i, d). length d - i)") auto

declare maskLoop.simps [simp del]

text \<open>
  \<open>toDataURL('image/png')\<close> encodes the bitmap without loss: the data URL is modelled by
  the bitmap it encodes. \<open>Inr None\<close> is the \<open>null\<close> result.
\<close>

definition getMaskDataUrl :: "ImageData option \<Rightarrow> error + ImageData option" where
  "getMaskDataUrl maskCanvas =
     (case maskCanvas of
        None \<Rightarrow> Inr None
      | Some mc \<Rightarrow>
          (let tempCanvas = createCanvas (width mc) (height mc) in
           case drawImage mc tempCanvas of
             Inl e \<Rightarrow> Inl e
           | Inr drawn \<Rightarrow>
               (case getImageData drawn of
                  Inl e \<Rightarrow> Inl e
                | Inr imageData \<Rightarrow>
                    Inr (Some (putImageData
                                 (imageData\<lparr>data := maskLoop 0 (data imageData)\<rparr>) drawn)))))"

section \<open>Painting and the undo history\<close>

text \<open>
  The rasteriser behind \<open>arc\<close> and \<open>fill\<close> is the browser's: a parameter of the model,
  taking the centre, the radius and the bitmap.
\<close>

type_synonym rasterizer = "rat \<Rightarrow> rat \<Rightarrow> rat \<Rightarrow> ImageData \<Rightarrow> ImageData"

definition getMaskContext :: "App \<Rightarrow> ImageData option" where
  "getMaskContext s = maskCanvasRef s"

text \<open>
  \<open>paintMask\<close>: \<open>arc\<close> ignores a centre that is not finite (the image coordinates when
  the scale is zero), and the fill of the empty path changes nothing.
\<close>

definition paintMask :: "rasterizer \<Rightarrow> App \<Rightarrow> Point option \<Rightarrow> App" where
  "paintMask fillArc s coords =
     (case getMaskContext s of
        None \<Rightarrow> s
      | Some ctx \<Rightarrow>
          (case coords of
             None \<Rightarrow> s
           | Some p \<Rightarrow>
               s\<lparr>maskCanvasRef := Some (fillArc (p_x p) (p_y p) (brushSize s / 2) ctx)\<rparr>))"

text \<open>\<open>xs.slice(-n)\<close>: the last \<open>n\<close> elements, all of them when there are fewer.\<close>

definition sliceLast :: "nat \<Rightarrow> 'a list \<Rightarrow> 'a list" where
  "sliceLast n xs = drop (length xs - n) xs"

definition saveHistory :: "App \<Rightarrow> App outcome" where
  "saveHistory s =
     (case getMaskContext s of
        None \<Rightarrow> Returned s
      | Some ctx \<Rightarrow>
          (case getImageData ctx of
             Inl e \<Rightarrow> Threw e s
           | Inr d \<Rightarrow> Returned (s\<lparr>history := sliceLast 10 (history s) @ [d]\<rparr>)))"

definition handleUndo :: "App \<Rightarrow> App" where
  "handleUndo s =
     (if length (history s) \<le> 1 then s
      else
        (let newHistory = butlast (history s);
             previousState = (if newHistory = [] then None else Some (last newHistory));
             s1 = s\<lparr>history := newHistory\<rparr>
         in case (getMaskContext s, previousState) of
              (Some ctx, Some ps) \<Rightarrow> s1\<lparr>maskCanvasRef := Some (putImageData ps ctx)\<rparr>
            | _ \<Rightarrow> s1))"

definition handleResetMask :: "App \<Rightarrow> App outcome" where
  "handleResetMask s =
     (case getMaskContext s of
        None \<Rightarrow> Returned s
      | Some ctx \<Rightarrow> saveHistory (s\<lparr>maskCanvasRef := Some (clearRect ctx)\<rparr>))"

definition handleMouseDown :: "rasterizer \<Rightarrow> App \<Rightarrow> MouseEvent \<Rightarrow> App" where
  "handleMouseDown fillArc s e =
     (if appState s \<noteq> IDLE then s
      else
        (let s1 = s\<lparr>isDraggingRef := True\<rparr>;
             coords = getImageCoords s1 e;
             s2 = s1\<lparr>lastPosRef := Some \<lparr>p_x = clientX e, p_y = clientY e\<rparr>\<rparr>
         in if tool s2 = BRUSH \<and> maskCanvasRef s2 \<noteq> None then paintMask fillArc s2 coords
            else s2))"

text \<open>\<open>a || b\<close> on numbers: \<open>b\<close> when \<open>a\<close> is missing or zero.\<close>

definition orElse :: "rat option \<Rightarrow> rat \<Rightarrow> rat" where
  "orElse a b = (case a of None \<Rightarrow> b | Some v \<Rightarrow> if v = 0 then b else v)"

definition handleMouseMove :: "rasterizer \<Rightarrow> App \<Rightarrow> MouseEvent \<Rightarrow> App" where
  "handleMouseMove fillArc s e =
     (if \<not> isDraggingRef s then s
      else if tool s = HAND then
        (let dx = clientX e - orElse (map_option p_x (lastPosRef s)) (clientX e);
             dy = clientY e - orElse (map_option p_y (lastPosRef s)) (clientY e);
             prev = transform s
         in s\<lparr>transform := prev\<lparr>t_x := t_x prev + dx, t_y := t_y prev + dy\<rparr>,
              lastPosRef := Some \<lparr>p_x = clientX e, p_y = clientY e\<rparr>\<rparr>)
      else paintMask fillArc s (getImageCoords s e))"

definition handleMouseUp :: "App \<Rightarrow> App outcome" where
  "handleMouseUp s =
     (case (if isDraggingRef s \<and> tool s = BRUSH then saveHistory s else Returned s) of
        Threw e s1 \<Rightarrow> Threw e s1
      | Returned s1 \<Rightarrow> Returned (s1\<lparr>isDraggingRef := False, lastPosRef := None\<rparr>))"

text \<open>A JavaScript string is truthy when it is neither \<open>null\<close> nor empty.\<close>

definition truthy :: "string option \<Rightarrow> bool" where
  "truthy v = (case v of None \<Rightarrow> False | Some str \<Rightarrow> str \<noteq> [])"

text \<open>
  The effect that creates the mask canvas depends on \<open>baseImage\<close>: it runs after a
  render in which \<open>baseImage\<close> differs from its value \<open>previous\<close> in the render before.
  Its test, \<open>baseImage && !maskCanvasRef.current\<close>, is made then; when it passes, the
  effect creates an \<open>Image\<close> and starts loading it.
\<close>

definition maskCanvasEffect :: "string option \<Rightarrow> App \<Rightarrow> App" where
  "maskCanvasEffect previous s =
     (if baseImage s \<noteq> previous \<and> truthy (baseImage s) \<and> maskCanvasRef s = None
      then s\<lparr>pendingLoads := Suc (pendingLoads s)\<rparr>
      else s)"

text \<open>
  \<open>img.onload\<close> of that effect, for an image of \<open>w\<close> by \<open>h\<close> pixels. It tests nothing: a
  load that was started creates and stores a mask canvas whatever the state is by then.
  The exception of \<open>getImageData\<close> leaves \<open>maskCanvasRef\<close> as it was, so a stored mask
  canvas never has a zero side; \<open>fitImageToScreen\<close> then divides by nonzero sizes.
\<close>

definition baseImageOnLoad :: "App \<Rightarrow> nat \<Rightarrow> nat \<Rightarrow> App outcome" where
  "baseImageOnLoad s w h =
     (let mc = clearRect (createCanvas w h) in
      case getImageData mc of
        Inl e \<Rightarrow> Threw e s
      | Inr d \<Rightarrow>
          (let s1 = s\<lparr>history := [d], maskCanvasRef := Some mc\<rparr> in
           Returned (case fitImageToScreen s1 (of_nat w) (of_nat h) of
                       None \<Rightarrow> s1
                     | Some s2 \<Rightarrow> s2)))"

text \<open>\<open>handleFileUpload\<close> once the reader has delivered the file as a data URL.\<close>

definition handleFileUpload :: "App \<Rightarrow> string \<Rightarrow> bool \<Rightarrow> App" where
  "handleFileUpload s result isBase =
     (if isBase then
        s\<lparr>baseImage := Some result, processedImage := None, appState := IDLE,
          maskCanvasRef := None, history := []\<rparr>
      else
        s\<lparr>objectSource :=
             Some \<lparr>os_type = image_source, os_data = result, previewUrl = Some result\<rparr>\<rparr>)"

definition applyChanges :: "App \<Rightarrow> App outcome" where
  "applyChanges s =
     (if truthy (processedImage s) then
        handleResetMask
          (s\<lparr>baseImage := processedImage s, processedImage := None, appState := IDLE\<rparr>)
      else Returned s)"

text \<open>
  The events that reach the mask and its history, and a run of them. After an event that
  can change \<open>baseImage\<close> the mask canvas effect runs. \<open>BaseImageLoaded w h\<close> is the
  \<open>onload\<close> of one pending image; with none pending there is no such event.
\<close>

fun afterRender :: "string option \<Rightarrow> App outcome \<Rightarrow> App outcome" where
  "afterRender previous (Returned s) = Returned (maskCanvasEffect previous s)"
| "afterRender previous (Threw e s) = Threw e (maskCanvasEffect previous s)"

datatype CanvasEvent =
    MouseDown MouseEvent
  | MouseMove MouseEvent
  | MouseUp
  | Undo
  | ResetMask
  | FileUpload string bool
  | BaseImageLoaded nat nat
  | ApplyChanges

fun handleEvent :: "rasterizer \<Rightarrow> App \<Rightarrow> CanvasEvent \<Rightarrow> App outcome" where
  "handleEvent fillArc s (MouseDown e) = Returned (handleMouseDown fillArc s e)"
| "handleEvent fillArc s (MouseMove e) = Returned (handleMouseMove fillArc s e)"
| "handleEvent fillArc s MouseUp = handleMouseUp s"
| "handleEvent fillArc s Undo = Returned (handleUndo s)"
| "handleEvent fillArc s ResetMask = handleResetMask s"
| "handleEvent fillArc s (FileUpload result isBase) =
     afterRender (baseImage s) (Returned (handleFileUpload s result isBase))"
| "handleEvent fillArc s (BaseImageLoaded w h) =
     (if pendingLoads s = 0 then Returned s
      else baseImageOnLoad (s\<lparr>pendingLoads := pendingLoads s - 1\<rparr>) w h)"
| "handleEvent fillArc s ApplyChanges = afterRender (baseImage s) (applyChanges s)"

fun runEvents :: "rasterizer \<Rightarrow> App \<Rightarrow> CanvasEvent list \<Rightarrow> App" where
  "runEvents fillArc s [] = s"
| "runEvents fillArc s (e # es) = runEvents fillArc (stateOf (handleEvent fillArc s e)) es"

section \<open>Placement and erasure\<close>

text \<open>
  The remote service and the image decoder are the environment, parameters of the model:
  \<^item> \<open>placeObjectInImage\<close> and \<open>eraseObjectInImage\<close> give \<open>Inr\<close> of the result image, or
    \<open>Inl\<close> of the error when the promise is rejected;
  \<^item> \<open>resizeImage\<close> resolves once the result has been decoded, and never settles when it
    cannot be decoded (\<open>None\<close>): the handler then stays suspended.
  A handler returns the state it leaves and the effects it had, in order: the alerts, the
  errors written to the console and the calls to the service.
\<close>

type_synonym placeService = "string \<Rightarrow> ImageData \<Rightarrow> string \<Rightarrow> string \<Rightarrow> error + string"
type_synonym eraseService = "string \<Rightarrow> ImageData \<Rightarrow> string \<Rightarrow> error + string"
type_synonym resizer = "string \<Rightarrow> nat \<Rightarrow> nat \<Rightarrow> string option"

datatype AlertMessage =
    PlaceInputsMissing
  | PlaceFailed
  | EraseInputsMissing
  | EraseFailed

datatype Effect =
    Alert AlertMessage
  | ConsoleError error
  | PlaceObjectCall string ImageData string string
  | EraseObjectCall string ImageData string

definition handlePlaceObject ::
  "placeService \<Rightarrow> resizer \<Rightarrow> App \<Rightarrow> App \<times> Effect list" where
  "handlePlaceObject placeObjectInImage resizeImage s =
     (case (baseImage s, objectSource s, maskCanvasRef s) of
        (Some base, Some obj, Some mc) \<Rightarrow>
          (if base = [] then (s, [Alert PlaceInputsMissing])
           else
             (let s1 = s\<lparr>appState := PROCESSING\<rparr> in
              case getMaskDataUrl (maskCanvasRef s1) of
                Inl e \<Rightarrow> (s1\<lparr>appState := IDLE\<rparr>, [ConsoleError e, Alert PlaceFailed])
              | Inr None \<Rightarrow>
                  (s1\<lparr>appState := IDLE\<rparr>,
                   [ConsoleError MaskGenerationFailed, Alert PlaceFailed])
              | Inr (Some maskDataUrl) \<Rightarrow>
                  (let call = PlaceObjectCall base maskDataUrl (os_data obj) (selectedModel s) in
                   case placeObjectInImage base maskDataUrl (os_data obj) (selectedModel s) of
                     Inl e \<Rightarrow>
                       (s1\<lparr>appState := IDLE\<rparr>, [call, ConsoleError e, Alert PlaceFailed])
                   | Inr resultImage \<Rightarrow>
                       (case resizeImage resultImage (width mc) (height mc) of
                          None \<Rightarrow> (s1, [call])
                        | Some resizedImage \<Rightarrow>
                            (s1\<lparr>processedImage := Some resizedImage,
                                appState := COMPARING\<rparr>, [call])))))
      | _ \<Rightarrow> (s, [Alert PlaceInputsMissing]))"

definition handleErase ::
  "eraseService \<Rightarrow> resizer \<Rightarrow> App \<Rightarrow> App \<times> Effect list" where
  "handleErase eraseObjectInImage resizeImage s =
     (case (baseImage s, maskCanvasRef s) of
        (Some base, Some mc) \<Rightarrow>
          (if base = [] then (s, [Alert EraseInputsMissing])
           else
             (let s1 = s\<lparr>appState := PROCESSING\<rparr> in
              case getMaskDataUrl (maskCanvasRef s1) of
                Inl e \<Rightarrow> (s1\<lparr>appState := IDLE\<rparr>, [ConsoleError e, Alert EraseFailed])
              | Inr None \<Rightarrow>
                  (s1\<lparr>appState := IDLE\<rparr>,
                   [ConsoleError MaskGenerationFailed, Alert EraseFailed])
              | Inr (Some maskDataUrl) \<Rightarrow>
                  (let call = EraseObjectCall base maskDataUrl (selectedModel s) in
                   case eraseObjectInImage base maskDataUrl (selectedModel s) of
                     Inl e \<Rightarrow>
                       (s1\<lparr>appState := IDLE\<rparr>, [call, ConsoleError e, Alert EraseFailed])
                   | Inr resultImage \<Rightarrow>
                       (case resizeImage resultImage (width mc) (height mc) of
                          None \<Rightarrow> (s1, [call])
                        | Some resizedImage \<Rightarrow>
                            (s1\<lparr>processedImage := Some resizedImage,
                                appState := COMPARING\<rparr>, [call])))))
      | _ \<Rightarrow> (s, [Alert EraseInputsMissing]))"

text \<open>The guards of the two handlers, negated: what each needs to go on.\<close>

definition placeInputsPresent :: "App \<Rightarrow> bool" where
  "placeInputsPresent s \<longleftrightarrow>
     truthy (baseImage s) \<and> objectSource s \<noteq> None \<and> maskCanvasRef s \<noteq> None"

definition eraseInputsPresent :: "App \<Rightarrow> bool" where
  "eraseInputsPresent s \<longleftrightarrow> truthy (baseImage s) \<and> maskCanvasRef s \<noteq> None"

section \<open>An invariant of the mask and its history\<close>

text \<open>
  Every saved state was read from the mask canvas in place, whose size never changes,
  and a new mask canvas starts a new history: the history is empty while there is no
  canvas, and otherwise the canvas has nonzero sides and every entry has its size. The
  rasteriser is taken to keep the size of the bitmap it paints on.
\<close>

fun fitsCanvas :: "ImageData option \<Rightarrow> ImageData list \<Rightarrow> bool" where
  "fitsCanvas None h = (h = [])"
| "fitsCanvas (Some mc) h =
     (wellFormed mc \<and> 0 < width mc \<and> 0 < height mc \<and>
      list_all (\<lambda>d. width d = width mc \<and> height d = height mc \<and> wellFormed d) h)"

definition historyFits :: "App \<Rightarrow> bool" where
  "historyFits s = fitsCanvas (maskCanvasRef s) (history s)"

definition sizePreserving :: "rasterizer \<Rightarrow> bool" where
  "sizePreserving fillArc \<longleftrightarrow>
     (\<forall>cx cy r c. width (fillArc cx cy r c) = width c \<and>
                  height (fillArc cx cy r c) = height c \<and>
                  length (data (fillArc cx cy r c)) = length (data c))"

section \<open>Concrete inputs\<close>

text \<open>
  A container of 800 by 600 pixels; an idle app with a transform; a mask of two pixels,
  the first painted, the second clear; a rasteriser that paints the first pixel; the
  session that uploads a base image of 2 by 1 pixels and paints one stroke, and the state
  it ends in; services that answer, and services that fail; a decoder that resolves, and
  one that never does; a wheel event; the painted app while a request is pending; a
  slider being dragged, and one whose container has collapsed to width zero; an app whose
  mask canvas has no pixel.
\<close>

definition demoContainer :: Container where
  "demoContainer =
     \<lparr>boundingClientRect =
        \<lparr>rect_left = 300, rect_top = 56, rect_width = 800, rect_height = 600\<rparr>,
      clientWidth = 800, clientHeight = 600\<rparr>"

definition demoApp :: App where
  "demoApp =
     (initialApp (Some demoContainer))\<lparr>transform := \<lparr>t_x = 20, t_y = 30, t_k = 1 / 2\<rparr>\<rparr>"

definition demoMask :: ImageData where
  "demoMask = \<lparr>width = 2, height = 1, data = [255, 0, 0, 128, 0, 0, 0, 0]\<rparr>"

definition clearMask :: ImageData where
  "clearMask = \<lparr>width = 2, height = 1, data = [0, 0, 0, 0, 0, 0, 0, 0]\<rparr>"

definition binaryMask :: ImageData where
  "binaryMask = \<lparr>width = 2, height = 1, data = [255, 255, 255, 255, 0, 0, 0, 255]\<rparr>"

definition demoBrush :: rasterizer where
  "demoBrush cx cy r c = c\<lparr>data := (data c)[0 := 255, 3 := 128]\<rparr>"

definition demoUrl :: string where
  "demoUrl = ''data:image/png;base64,AAAA''"

definition demoStroke :: "CanvasEvent list" where
  "demoStroke = [MouseDown \<lparr>clientX = 320, clientY = 166\<rparr>, MouseUp]"

definition demoSession :: "CanvasEvent list" where
  "demoSession = [FileUpload demoUrl True, BaseImageLoaded 2 1] @ demoStroke"

definition paintedApp :: App where
  "paintedApp =
     \<lparr>appState = IDLE, baseImage = Some demoUrl, processedImage = None, tool = BRUSH,
      brushSize = 30, transform = \<lparr>t_x = 20, t_y = 110, t_k = 380\<rparr>,
      history = [clearMask, demoMask], objectSource = None,
      selectedModel = ''gemini-3-pro-image-preview'', maskCanvasRef = Some demoMask,
      containerRef = Some demoContainer, isDraggingRef = False, lastPosRef = None,
      pendingLoads = 0\<rparr>"

definition demoObject :: ObjectSource where
  "demoObject = \<lparr>os_type = image_source, os_data = ''data:image/png;base64,BBBB'',
                 previewUrl = Some ''data:image/png;base64,BBBB''\<rparr>"

definition demoPlace :: placeService where
  "demoPlace b m obj mdl = Inr ''data:image/png;base64,CCCC''"

definition demoErase :: eraseService where
  "demoErase b m mdl = Inr ''data:image/png;base64,DDDD''"

definition failingPlace :: placeService where
  "failingPlace b m obj mdl = Inl (RemoteError ''No image returned from placement operation.'')"

definition failingErase :: eraseService where
  "failingErase b m mdl = Inl (RemoteError ''No image returned from erase operation.'')"

definition demoResize :: resizer where
  "demoResize r w h = Some r"

definition pendingResize :: resizer where
  "pendingResize r w h = None"

definition zoomIn :: WheelEvent where
  "zoomIn = \<lparr>clientX = 325, clientY = 90, deltaY = - 100\<rparr>"

definition busyApp :: App where
  "busyApp = paintedApp\<lparr>appState := PROCESSING\<rparr>"

definition demoSlider :: Slider where
  "demoSlider =
     (initialSlider (Some \<lparr>rect_left = 300, rect_top = 56, rect_width = 800, rect_height = 600\<rparr>))
       \<lparr>isDragging := True\<rparr>"

definition collapsedSlider :: Slider where
  "collapsedSlider =
     (initialSlider (Some \<lparr>rect_left = 300, rect_top = 56, rect_width = 0, rect_height = 600\<rparr>))
       \<lparr>isDragging := True\<rparr>"

definition emptyMaskApp :: App where
  "emptyMaskApp =
     paintedApp\<lparr>history := [], maskCanvasRef := Some \<lparr>width = 0, height = 0, data = []\<rparr>\<rparr>"

section \<open>Pan and zoom: properties\<close>

text \<open>
  C1. The pan/zoom coordinate transform is invertible. For a transform whose scale is not
  zero and a mounted container, the point where \<open>draw\<close> puts the image point \<open>p\<close>,
  taken as the position of a mouse event, is mapped back to exactly \<open>p\<close> by
  \<open>getImageCoords\<close>; and the image coordinates of any mouse event are drawn at the
  position of that event.
\<close>

theorem getImageCoords_inverts_drawTransform:
  assumes "t_k (transform s) \<noteq> 0" and "containerRef s = Some c"
  shows "getImageCoords s (eventAt c (drawTransform (transform s) p)) = Some p \<and>
         (\<exists>q. getImageCoords s e = Some q \<and>
              drawTransform (transform s) q = containerPoint c e)"
  using assms
  by (simp add: getImageCoords_def eventAt_def drawTransform_def containerPoint_def Let_def)

theorem getImageCoords_inverts_drawTransform_witness:
  "t_k (transform demoApp) \<noteq> 0 \<and> containerRef demoApp = Some demoContainer \<and>
   drawTransform (transform demoApp) \<lparr>p_x = 10, p_y = 8\<rparr> = \<lparr>p_x = 25, p_y = 34\<rparr> \<and>
   getImageCoords demoApp \<lparr>clientX = 325, clientY = 90\<rparr> = Some \<lparr>p_x = 10, p_y = 8\<rparr>"
proof -
  have h1: "t_k (transform demoApp) \<noteq> 0"
    by (simp add: demoApp_def)
  have h2: "containerRef demoApp = Some demoContainer"
    by (simp add: demoApp_def initialApp_def)
  have dt: "drawTransform (transform demoApp) \<lparr>p_x = 10, p_y = 8\<rparr> = \<lparr>p_x = 25, p_y = 34\<rparr>"
    by (simp add: drawTransform_def demoApp_def)
  have ev: "eventAt demoContainer \<lparr>p_x = 25, p_y = 34\<rparr> = \<lparr>clientX = 325, clientY = 90\<rparr>"
    by (simp add: eventAt_def demoContainer_def)
  from getImageCoords_inverts_drawTransform
         [OF h1 h2, of "\<lparr>p_x = 10, p_y = 8\<rparr>" "\<lparr>clientX = 325, clientY = 90\<rparr>"]
  have "getImageCoords demoApp \<lparr>clientX = 325, clientY = 90\<rparr> = Some \<lparr>p_x = 10, p_y = 8\<rparr>"
    unfolding dt ev by blast
  with h1 h2 dt show ?thesis by blast
qed

text \<open>
  C5. Zoom is anchored at the cursor. When the new scale \<open>k * delta\<close> already lies in
  \<open>[1/10, 5]\<close>, so that the clamp leaves it alone, \<open>handleWheel\<close> returns a state in which
  the image coordinates of the mouse position are the ones it had before. (An event that
  the handler ignores changes nothing at all.)
\<close>

theorem handleWheel_anchors_cursor:
  assumes "1 / 10 \<le> t_k (transform s) * wheelDelta e"
    and "t_k (transform s) * wheelDelta e \<le> 5"
  shows "\<exists>s'. handleWheel s e = Some s' \<and> getImageCoords s' e = getImageCoords s e"
proof -
  have d: "wheelDelta e \<noteq> 0"
    by (simp add: wheelDelta_def zoomIntensity_def)
  have k: "t_k (transform s) \<noteq> 0"
    using assms(1) by auto
  have nk: "max (1 / 10) (min (t_k (transform s) * wheelDelta e) 5) =
            t_k (transform s) * wheelDelta e"
    using assms by simp
  show ?thesis
  proof (cases "appState s \<noteq> IDLE \<or> containerRef s = None")
    case True
    then show ?thesis by (auto simp: handleWheel_def)
  next
    case False
    then obtain c where c: "containerRef s = Some c" and idle: "appState s = IDLE"
      by auto
    show ?thesis
      using c idle k d
      by (simp add: handleWheel_def getImageCoords_def Let_def nk field_simps)
  qed
qed

theorem handleWheel_anchors_cursor_witness:
  "1 / 10 \<le> t_k (transform demoApp) * wheelDelta zoomIn \<and>
   t_k (transform demoApp) * wheelDelta zoomIn \<le> 5 \<and>
   getImageCoords demoApp zoomIn = Some \<lparr>p_x = 10, p_y = 8\<rparr> \<and>
   (\<exists>s'. handleWheel demoApp zoomIn = Some s' \<and> t_k (transform s') = 11 / 20 \<and>
         getImageCoords s' zoomIn = Some \<lparr>p_x = 10, p_y = 8\<rparr>)"
proof -
  have h1: "1 / 10 \<le> t_k (transform demoApp) * wheelDelta zoomIn"
    by code_simp
  have h2: "t_k (transform demoApp) * wheelDelta zoomIn \<le> 5"
    by code_simp
  have c: "getImageCoords demoApp zoomIn = Some \<lparr>p_x = 10, p_y = 8\<rparr>"
    by code_simp
  have k: "handleWheel demoApp zoomIn = Some s' \<Longrightarrow> t_k (transform s') = 11 / 20" for s'
    by (auto simp: handleWheel_def demoApp_def initialApp_def zoomIn_def wheelDelta_def
        zoomIntensity_def Let_def)
  from handleWheel_anchors_cursor [OF h1 h2] c k h1 h2 show ?thesis
    by auto
qed

lemma handleWheel_keeps_bounds:
  assumes "scaleInBounds s"
  shows "\<exists>s'. handleWheel s e = Some s' \<and> scaleInBounds s'"
  using assms
  by (auto simp: handleWheel_def scaleInBounds_def Let_def split: option.splits)

lemma wheelEvents_keep_bounds:
  "scaleInBounds s \<Longrightarrow> \<exists>s'. wheelEvents s es = Some s' \<and> scaleInBounds s'"
proof (induction es arbitrary: s)
  case Nil
  then show ?case by simp
next
  case (Cons e es)
  from handleWheel_keeps_bounds[OF Cons.prems, of e]
  obtain s1 where "handleWheel s e = Some s1" "scaleInBounds s1" by blast
  with Cons.IH[of s1] show ?case by simp
qed

text \<open>
  C6, as the code has it. A wheel event is handled only while the app is idle and the
  container is mounted. A handled event on a transform of positive scale leaves a scale
  in \<open>[1/10, 5]\<close>, and every later run of wheel events, handled or not, keeps it there.
  An event that arrives in another app state, or without a container, leaves the state
  as it was, whatever its scale.
\<close>

theorem handleWheel_scale_bounds:
  "(appState s = IDLE \<and> containerRef s \<noteq> None \<and> 0 < t_k (transform s) \<longrightarrow>
      (\<exists>s'. handleWheel s e = Some s' \<and> scaleInBounds s' \<and>
            (\<forall>es. \<exists>s''. wheelEvents s' es = Some s'' \<and> scaleInBounds s''))) \<and>
   (appState s \<noteq> IDLE \<or> containerRef s = None \<longrightarrow> handleWheel s e = Some s)"
proof -
  have "\<exists>s'. handleWheel s e = Some s' \<and> scaleInBounds s'"
    if "appState s = IDLE" "containerRef s \<noteq> None" "0 < t_k (transform s)"
    using that by (auto simp: handleWheel_def scaleInBounds_def Let_def)
  moreover have "handleWheel s e = Some s" if "appState s \<noteq> IDLE \<or> containerRef s = None"
    using that by (auto simp: handleWheel_def)
  ultimately show ?thesis
    using wheelEvents_keep_bounds by blast
qed

theorem handleWheel_scale_bounds_witness:
  "appState demoApp = IDLE \<and> containerRef demoApp \<noteq> None \<and> 0 < t_k (transform demoApp) \<and>
   (\<exists>s'. handleWheel demoApp zoomIn = Some s' \<and> scaleInBounds s' \<and>
         (\<exists>s''. wheelEvents s' [zoomIn, zoomIn] = Some s'' \<and> scaleInBounds s'')) \<and>
   appState busyApp \<noteq> IDLE \<and> handleWheel busyApp zoomIn = Some busyApp"
proof -
  have h: "appState demoApp = IDLE" "containerRef demoApp \<noteq> None" "0 < t_k (transform demoApp)"
    by (simp_all add: demoApp_def initialApp_def)
  have b: "appState busyApp \<noteq> IDLE"
    by (simp add: busyApp_def)
  from handleWheel_scale_bounds [of demoApp zoomIn] h
  have "\<exists>s'. handleWheel demoApp zoomIn = Some s' \<and> scaleInBounds s' \<and>
         (\<exists>s''. wheelEvents s' [zoomIn, zoomIn] = Some s'' \<and> scaleInBounds s'')"
    by blast
  moreover from handleWheel_scale_bounds [of busyApp zoomIn] b
  have "handleWheel busyApp zoomIn = Some busyApp"
    by blast
  ultimately show ?thesis
    using h b by blast
qed

text \<open>
  The claim as stated fails where the handler ignores the event: while a request is
  pending on the painted app, whose image was fitted at scale 380, a wheel event leaves
  the scale at 380.
\<close>

theorem handleWheel_while_processing_counterexample:
  "fst (handleErase demoErase pendingResize paintedApp) = busyApp \<and>
   0 < t_k (transform busyApp) \<and>
   handleWheel busyApp zoomIn = Some busyApp \<and>
   t_k (transform busyApp) = 380 \<and>
   \<not> scaleInBounds busyApp"
  by code_simp

text \<open>
  C10, in exact arithmetic. \<open>fitImageToScreen\<close> fits and centres. For an image of
  positive width \<open>w\<close> and height \<open>h\<close> and a mounted container of client size \<open>cw\<close> by
  \<open>ch\<close>, only the transform changes: the scale is \<open>min ((cw - 40) / w) ((ch - 40) / h)\<close>,
  the offsets are \<open>(cw - w * k) / 2\<close> and \<open>(ch - h * k) / 2\<close>, so that the margins left and
  right are equal, and those above and below; and when \<open>cw > 40\<close> and \<open>ch > 40\<close> the scale
  is positive and the scaled image lies in the container with at least 20 pixels on each
  side.
\<close>

theorem fitImageToScreen_fits_and_centers:
  assumes "0 < w" and "0 < h" and "containerRef s = Some c"
  shows "\<exists>k x y. fitImageToScreen s w h = Some (s\<lparr>transform := \<lparr>t_x = x, t_y = y, t_k = k\<rparr>\<rparr>) \<and>
           k = min ((clientWidth c - 40) / w) ((clientHeight c - 40) / h) \<and>
           x = (clientWidth c - w * k) / 2 \<and>
           y = (clientHeight c - h * k) / 2 \<and>
           x = clientWidth c - (x + w * k) \<and>
           y = clientHeight c - (y + h * k) \<and>
           (40 < clientWidth c \<and> 40 < clientHeight c \<longrightarrow>
              0 < k \<and> 20 \<le> x \<and> x + w * k \<le> clientWidth c - 20 \<and>
              20 \<le> y \<and> y + h * k \<le> clientHeight c - 20)"
proof -
  define k where "k = min ((clientWidth c - 40) / w) ((clientHeight c - 40) / h)"
  define x where "x = (clientWidth c - w * k) / 2"
  define y where "y = (clientHeight c - h * k) / 2"
  have fit: "fitImageToScreen s w h = Some (s\<lparr>transform := \<lparr>t_x = x, t_y = y, t_k = k\<rparr>\<rparr>)"
    using assms by (simp add: fitImageToScreen_def Let_def k_def x_def y_def)
  have "k \<le> (clientWidth c - 40) / w"
    by (simp add: k_def)
  then have wk: "w * k \<le> clientWidth c - 40"
    using \<open>0 < w\<close> by (simp add: pos_le_divide_eq mult.commute)
  have "k \<le> (clientHeight c - 40) / h"
    by (simp add: k_def)
  then have hk: "h * k \<le> clientHeight c - 40"
    using \<open>0 < h\<close> by (simp add: pos_le_divide_eq mult.commute)
  have cx: "x = clientWidth c - (x + w * k)"
    by (simp add: x_def field_simps)
  have cy: "y = clientHeight c - (y + h * k)"
    by (simp add: y_def field_simps)
  have kpos: "0 < k" if "40 < clientWidth c" "40 < clientHeight c"
    using that assms(1,2) by (simp add: k_def)
  have mx: "20 \<le> x \<and> x + w * k \<le> clientWidth c - 20"
    using wk by (simp add: x_def field_simps)
  have my: "20 \<le> y \<and> y + h * k \<le> clientHeight c - 20"
    using hk by (simp add: y_def field_simps)
  show ?thesis
    using fit cx cy kpos mx my k_def x_def y_def by blast
qed

theorem fitImageToScreen_fits_and_centers_witness:
  "(0::rat) < 400 \<and> (0::rat) < 200 \<and> containerRef demoApp = Some demoContainer \<and>
   40 < clientWidth demoContainer \<and> 40 < clientHeight demoContainer \<and>
   fitImageToScreen demoApp 400 200 =
     Some (demoApp\<lparr>transform := \<lparr>t_x = 20, t_y = 110, t_k = 19 / 10\<rparr>\<rparr>)"
proof -
  have h: "(0::rat) < 400" "(0::rat) < 200" "containerRef demoApp = Some demoContainer"
    by (simp_all add: demoApp_def initialApp_def)
  have c: "clientWidth demoContainer = 800" "clientHeight demoContainer = 600"
    by (simp_all add: demoContainer_def)
  from fitImageToScreen_fits_and_centers [OF h]
  obtain k x y where fit:
    "fitImageToScreen demoApp 400 200 = Some (demoApp\<lparr>transform := \<lparr>t_x = x, t_y = y, t_k = k\<rparr>\<rparr>)"
    and k: "k = min ((clientWidth demoContainer - 40) / 400) ((clientHeight demoContainer - 40) / 200)"
    and x: "x = (clientWidth demoContainer - 400 * k) / 2"
    and y: "y = (clientHeight demoContainer - 200 * k) / 2"
    by blast
  have k': "k = 19 / 10"
    unfolding k c by simp
  have "x = 20" "y = 110"
    unfolding x y k' c by simp_all
  with fit k' h c show ?thesis by simp
qed

text \<open>
  The claim as stated, of the numbers that the code computes, fails: for an image of 81
  by 41 pixels in the container of 800 by 600, \<open>760 / 81\<close> rounds up, \<open>81 * scale\<close>
  rounds to the double above 760, and the left margin is \<open>20 - 1 / 2 ^ 44\<close>: less than
  20, and less than the right margin.
\<close>

theorem fitImageToScreen_binary64_margin_counterexample:
  "fitImageToScreen_binary64 demoApp 81 41 =
     Some (demoApp\<lparr>transform :=
        \<lparr>t_x = 351843720888319 / 17592186044416,
         t_y = 3787749686600185 / 35184372088832,
         t_k = 5281999562965397 / 562949953421312\<rparr>\<rparr>) \<and>
   (351843720888319 / 17592186044416 :: rat) < 20 \<and>
   (351843720888319 / 17592186044416 :: rat) <
     800 - (351843720888319 / 17592186044416 + 81 * (5281999562965397 / 562949953421312))"
  by code_simp

text \<open>
  Where no operation rounds, the two computations agree, as for an image of 380 by 280
  pixels in that container.
\<close>

lemma fitImageToScreen_binary64_exact:
  assumes "binary64 (clientWidth c - 40) = clientWidth c - 40"
    and "binary64 (clientHeight c - 40) = clientHeight c - 40"
    and "binary64 ((clientWidth c - 40) / w) = (clientWidth c - 40) / w"
    and "binary64 ((clientHeight c - 40) / h) = (clientHeight c - 40) / h"
    and "k = min ((clientWidth c - 40) / w) ((clientHeight c - 40) / h)"
    and "binary64 (w * k) = w * k" and "binary64 (h * k) = h * k"
    and "binary64 (clientWidth c - w * k) = clientWidth c - w * k"
    and "binary64 (clientHeight c - h * k) = clientHeight c - h * k"
    and "binary64 ((clientWidth c - w * k) / 2) = (clientWidth c - w * k) / 2"
    and "binary64 ((clientHeight c - h * k) / 2) = (clientHeight c - h * k) / 2"
    and "containerRef s = Some c"
  shows "fitImageToScreen_binary64 s w h = fitImageToScreen s w h"
  using assms(12)
  by (simp add: fitImageToScreen_binary64_def fitImageToScreen_def Let_def assms(1-4)
      assms(5)[symmetric] assms(6-11))

lemma fitImageToScreen_binary64_example:
  "fitImageToScreen_binary64 demoApp 380 280 =
     Some (demoApp\<lparr>transform := \<lparr>t_x = 20, t_y = 20, t_k = 2\<rparr>\<rparr>) \<and>
   fitImageToScreen demoApp 380 280 =
     Some (demoApp\<lparr>transform := \<lparr>t_x = 20, t_y = 20, t_k = 2\<rparr>\<rparr>)"
  by code_simp

section \<open>The comparison slider: properties\<close>

text \<open>
  C9, as the code has it. Over a mounted container of positive width, a mouse move while
  dragging sets the slider position to the horizontal offset of the cursor, clamped to
  \<open>[0, width]\<close>, as a percentage of the width, which lies in \<open>[0, 100]\<close>; a mouse move
  while not dragging leaves the slider as it was. So a position in \<open>[0, 100]\<close>, as the
  initial 50 is, stays there. (Over a container of width zero the division is \<open>0 / 0\<close>.)
\<close>

theorem slider_position_in_range:
  assumes "sliderContainerRef sl = Some rect" and "0 < rect_width rect"
  shows "\<exists>p. p = max 0 (min (clientX e - rect_left rect) (rect_width rect))
                   / rect_width rect * 100 \<and>
             0 \<le> p \<and> p \<le> 100 \<and>
             slider_handleMouseMove sl e =
               (if isDragging sl then sl\<lparr>sliderPosition := Some p\<rparr> else sl) \<and>
             ((\<exists>q. sliderPosition sl = Some q \<and> 0 \<le> q \<and> q \<le> 100) \<longrightarrow>
              (\<exists>q. sliderPosition (slider_handleMouseMove sl e) = Some q \<and> 0 \<le> q \<and> q \<le> 100))"
proof -
  define x where "x = max 0 (min (clientX e - rect_left rect) (rect_width rect))"
  define p where "p = x / rect_width rect * 100"
  have x: "0 \<le> x" "x \<le> rect_width rect"
    using assms(2) by (simp_all add: x_def)
  have p: "0 \<le> p" "p \<le> 100"
    using x assms(2) by (simp_all add: p_def field_simps)
  have mv: "slider_handleMouseMove sl e =
              (if isDragging sl then sl\<lparr>sliderPosition := Some p\<rparr> else sl)"
    using assms by (simp add: slider_handleMouseMove_def Let_def p_def x_def)
  have keep: "\<exists>q. sliderPosition (slider_handleMouseMove sl e) = Some q \<and> 0 \<le> q \<and> q \<le> 100"
    if "\<exists>q. sliderPosition sl = Some q \<and> 0 \<le> q \<and> q \<le> 100"
    using that p by (simp add: mv)
  show ?thesis
    using p mv keep unfolding p_def x_def by blast
qed

theorem slider_position_in_range_witness:
  "sliderContainerRef demoSlider =
     Some \<lparr>rect_left = 300, rect_top = 56, rect_width = 800, rect_height = 600\<rparr> \<and>
   isDragging demoSlider \<and> sliderPosition demoSlider = Some 50 \<and>
   slider_handleMouseMove demoSlider \<lparr>clientX = 500, clientY = 100\<rparr> =
     demoSlider\<lparr>sliderPosition := Some 25\<rparr>"
proof -
  have h: "sliderContainerRef demoSlider =
     Some \<lparr>rect_left = 300, rect_top = 56, rect_width = 800, rect_height = 600\<rparr>"
    "isDragging demoSlider" "sliderPosition demoSlider = Some 50"
    by (simp_all add: demoSlider_def initialSlider_def)
  from slider_position_in_range [OF h(1), of "\<lparr>clientX = 500, clientY = 100\<rparr>"] h(2)
  have "slider_handleMouseMove demoSlider \<lparr>clientX = 500, clientY = 100\<rparr> =
          demoSlider\<lparr>sliderPosition := Some 25\<rparr>"
    by simp
  with h show ?thesis by simp
qed

text \<open>
  The claim as stated fails over a container of width zero: the clamped offset is 0, the
  percentage is \<open>0 / 0 * 100\<close>, and the position set is NaN.
\<close>

theorem slider_zero_width_counterexample:
  "isDragging collapsedSlider \<and>
   sliderContainerRef collapsedSlider =
     Some \<lparr>rect_left = 300, rect_top = 56, rect_width = 0, rect_height = 600\<rparr> \<and>
   sliderPosition (slider_handleMouseMove collapsedSlider \<lparr>clientX = 500, clientY = 100\<rparr>) = None"
  by (simp add: collapsedSlider_def initialSlider_def slider_handleMouseMove_def)

section \<open>The mask sent to the remote service: properties\<close>

lemma maskLoop_length: "length (maskLoop i d) = length d"
proof (induction i d rule: maskLoop.induct)
  case (1 i d)
  then show ?case
    by (subst maskLoop.simps) (simp add: Let_def)
qed

lemma maskLoop_nth:
  assumes "length d = 4 * n" and "i = 4 * j" and "q < length d"
  shows "maskLoop i d ! q =
           (if q < i then d ! q
            else if q mod 4 = 3 then 255
            else if d ! (4 * (q div 4) + 3) > 0 then 255 else 0)"
  using assms
proof (induction i d arbitrary: j rule: maskLoop.induct)
  case (1 i d)
  show ?case
  proof (cases "i < length d")
    case False
    then have "maskLoop i d = d" by (subst maskLoop.simps) simp
    with False "1.prems" show ?thesis by simp
  next
    case True
    with "1.prems" have i3: "i + 3 < length d" by arith
    have qd: "q div 4 = j" if "i \<le> q" "q < i + 4" using that "1.prems"(2) by arith
    show ?thesis
    proof (cases "d ! (i + 3) > 0")
      case pos: True
      let ?d' = "d[i := 255, i + 1 := 255, i + 2 := 255, i + 3 := 255]"
      have step: "maskLoop i d = maskLoop (i + 4) ?d'"
        using True i3 pos by (subst maskLoop.simps) (simp add: Let_def)
      have ih: "maskLoop (i + 4) ?d' ! q =
           (if q < i + 4 then ?d' ! q
            else if q mod 4 = 3 then 255
            else if ?d' ! (4 * (q div 4) + 3) > 0 then 255 else 0)"
        by (rule "1.IH"(1)[where x = "Some (d ! (i + 3))" and j = "Suc j"])
           (use True i3 pos "1.prems" in simp_all)
      have far: "?d' ! (4 * (q div 4) + 3) = d ! (4 * (q div 4) + 3)" if "i + 4 \<le> q"
      proof -
        have "4 * (q div 4) + 3 \<ge> i + 4" using that "1.prems"(2) by arith
        then show ?thesis by simp
      qed
      consider "q < i" | "q = i" | "q = i + 1" | "q = i + 2" | "q = i + 3" | "i + 4 \<le> q"
        by arith
      then show ?thesis
      proof cases
        case 1 then show ?thesis using step ih by simp
      next
        case 2 then show ?thesis using step ih i3 pos qd "1.prems"(2) by simp
      next
        case 3 then show ?thesis using step ih i3 pos qd "1.prems"(2) by (simp add: mod_Suc)
      next
        case 4 then show ?thesis using step ih i3 pos qd "1.prems"(2) by (simp add: mod_Suc)
      next
        case 5 then show ?thesis using step ih i3 pos qd "1.prems"(2) by (simp add: mod_Suc)
      next
        case 6 then show ?thesis using step ih far by simp
      qed
    next
      case npos: False
      let ?d' = "d[i := 0, i + 1 := 0, i + 2 := 0, i + 3 := 255]"
      have step: "maskLoop i d = maskLoop (i + 4) ?d'"
        using True i3 npos by (subst maskLoop.simps) (simp add: Let_def)
      have ih: "maskLoop (i + 4) ?d' ! q =
           (if q < i + 4 then ?d' ! q
            else if q mod 4 = 3 then 255
            else if ?d' ! (4 * (q div 4) + 3) > 0 then 255 else 0)"
        by (rule "1.IH"(2)[where x = "Some (d ! (i + 3))" and j = "Suc j"])
           (use True i3 npos "1.prems" in simp_all)
      have far: "?d' ! (4 * (q div 4) + 3) = d ! (4 * (q div 4) + 3)" if "i + 4 \<le> q"
      proof -
        have "4 * (q div 4) + 3 \<ge> i + 4" using that "1.prems"(2) by arith
        then show ?thesis by simp
      qed
      consider "q < i" | "q = i" | "q = i + 1" | "q = i + 2" | "q = i + 3" | "i + 4 \<le> q"
        by arith
      then show ?thesis
      proof cases
        case 1 then show ?thesis using step ih by simp
      next
        case 2 then show ?thesis using step ih i3 npos qd "1.prems"(2) by simp
      next
        case 3 then show ?thesis using step ih i3 npos qd "1.prems"(2) by (simp add: mod_Suc)
      next
        case 4 then show ?thesis using step ih i3 npos qd "1.prems"(2) by (simp add: mod_Suc)
      next
        case 5 then show ?thesis using step ih i3 npos qd "1.prems"(2) by (simp add: mod_Suc)
      next
        case 6 then show ?thesis using step ih far by simp
      qed
    qed
  qed
qed

lemma putImageData_same:
  assumes "width img = width c" and "height img = height c"
    and "wellFormed img" and "wellFormed c"
  shows "putImageData img c = c\<lparr>data := data img\<rparr>"
proof -
  let ?w = "width c" and ?h = "height c"
  let ?f = "\<lambda>j. let p = j div 4; ch = j mod 4; col = p mod width c; row = p div width c
                 in if col < width img \<and> row < height img
                    then data img ! (4 * (row * width img + col) + ch)
                    else data c ! j"
  have len: "length (data img) = 4 * ?w * ?h" "length (data c) = 4 * ?w * ?h"
    using assms by (simp_all add: wellFormed_def)
  have "map ?f [0..<length (data c)] = data img"
  proof (rule nth_equalityI)
    show "length (map ?f [0..<length (data c)]) = length (data img)"
      using len by simp
  next
    fix j assume "j < length (map ?f [0..<length (data c)])"
    then have j: "j < 4 * ?w * ?h" using len by simp
    then have p: "j div 4 < ?w * ?h" by auto
    then have w: "0 < ?w" by (cases "?w") auto
    have col: "(j div 4) mod ?w < ?w" using w by simp
    have row: "(j div 4) div ?w < ?h"
      using p by (simp add: less_mult_imp_div_less mult.commute)
    have idx: "4 * ((j div 4) div ?w * ?w + (j div 4) mod ?w) + j mod 4 = j"
      by simp
    show "map ?f [0..<length (data c)] ! j = data img ! j"
      using j len col row idx assms(1,2) by (simp add: Let_def)
  qed
  then show ?thesis by (simp add: putImageData_def)
qed

lemma drawImage_createCanvas:
  assumes "wellFormed mc" and "0 < width mc" and "0 < height mc"
  shows "drawImage mc (createCanvas (width mc) (height mc)) = Inr mc"
proof -
  let ?t = "createCanvas (width mc) (height mc)"
  have "putImageData mc ?t = ?t\<lparr>data := data mc\<rparr>"
    by (rule putImageData_same) (use assms(1) in \<open>simp_all add: createCanvas_def wellFormed_def\<close>)
  also have "\<dots> = mc"
    by (simp add: createCanvas_def)
  finally show ?thesis
    using assms(2,3) by (simp add: drawImage_def)
qed

lemma putImageData_maskLoop:
  assumes "wellFormed mc"
  shows "putImageData (mc\<lparr>data := maskLoop 0 (data mc)\<rparr>) mc = mc\<lparr>data := maskLoop 0 (data mc)\<rparr>"
proof -
  have "putImageData (mc\<lparr>data := maskLoop 0 (data mc)\<rparr>) mc =
        mc\<lparr>data := data (mc\<lparr>data := maskLoop 0 (data mc)\<rparr>)\<rparr>"
    by (rule putImageData_same) (use assms in \<open>simp_all add: wellFormed_def maskLoop_length\<close>)
  then show ?thesis by simp
qed

lemma getMaskDataUrl_Some:
  assumes "wellFormed mc" and "0 < width mc" and "0 < height mc"
  shows "getMaskDataUrl (Some mc) = Inr (Some (mc\<lparr>data := maskLoop 0 (data mc)\<rparr>))"
  using assms(2,3)
  by (simp add: getMaskDataUrl_def drawImage_createCanvas[OF assms] getImageData_def
      putImageData_maskLoop[OF assms(1)])

lemma getMaskDataUrl_zero:
  assumes "width mc = 0 \<or> height mc = 0"
  shows "getMaskDataUrl (Some mc) = Inl InvalidStateError"
  using assms by (auto simp: getMaskDataUrl_def drawImage_def Let_def)

lemma maskLoop_pixel:
  assumes "length d = 4 * n" and "p < n"
  shows "maskLoop 0 d ! (4 * p) = (if d ! (4 * p + 3) > 0 then 255 else 0)"
    and "maskLoop 0 d ! (4 * p + 1) = (if d ! (4 * p + 3) > 0 then 255 else 0)"
    and "maskLoop 0 d ! (4 * p + 2) = (if d ! (4 * p + 3) > 0 then 255 else 0)"
    and "maskLoop 0 d ! (4 * p + 3) = 255"
proof -
  have d0: "(4 * p) div 4 = p" "(4 * p) mod 4 = 0" by presburger+
  have d1: "(4 * p + 1) div 4 = p" "(4 * p + 1) mod 4 = 1" by presburger+
  have d2: "(4 * p + 2) div 4 = p" "(4 * p + 2) mod 4 = 2" by presburger+
  have d3: "(4 * p + 3) div 4 = p" "(4 * p + 3) mod 4 = 3" by presburger+
  have lt: "4 * p < length d" "4 * p + 1 < length d" "4 * p + 2 < length d" "4 * p + 3 < length d"
    using assms by simp_all
  show "maskLoop 0 d ! (4 * p) = (if d ! (4 * p + 3) > 0 then 255 else 0)"
    using maskLoop_nth[OF assms(1) _ lt(1), of 0 0] d0 by simp
  show "maskLoop 0 d ! (4 * p + 1) = (if d ! (4 * p + 3) > 0 then 255 else 0)"
    using maskLoop_nth[OF assms(1) _ lt(2), of 0 0] d1 by simp
  show "maskLoop 0 d ! (4 * p + 2) = (if d ! (4 * p + 3) > 0 then 255 else 0)"
    using maskLoop_nth[OF assms(1) _ lt(3), of 0 0] d2 by simp
  show "maskLoop 0 d ! (4 * p + 3) = 255"
    using maskLoop_nth[OF assms(1) _ lt(4), of 0 0] d3 by simp
qed

lemma maskLoop_pixel_out:
  assumes "wellFormed mc" and "p < width mc * height mc"
  shows "pixel (mc\<lparr>data := maskLoop 0 (data mc)\<rparr>) p =
           (if alphaOf mc p > 0 then (255, 255, 255, 255) else (0, 0, 0, 255))"
proof -
  have len: "length (data mc) = 4 * (width mc * height mc)"
    using assms(1) by (simp add: wellFormed_def)
  note px = maskLoop_pixel[OF len assms(2)]
  show ?thesis
    using px by (simp add: pixel_def alphaOf_def)
qed

text \<open>
  C4. The mask handed to the remote service is strictly binary. For a well-formed mask
  canvas with nonzero sides, \<open>getMaskDataUrl\<close> returns an image of the same size in which
  every pixel is opaque white where the mask pixel has alpha above zero, and opaque black
  where it has alpha zero. (A canvas with a zero side has no pixel, and \<open>drawImage\<close>
  raises.)
\<close>

theorem getMaskDataUrl_binary:
  assumes "wellFormed mc"
  shows "if width mc = 0 \<or> height mc = 0
         then getMaskDataUrl (Some mc) = Inl InvalidStateError
         else (\<exists>out. getMaskDataUrl (Some mc) = Inr (Some out) \<and>
                 width out = width mc \<and> height out = height mc \<and> wellFormed out \<and>
                 (\<forall>p < width mc * height mc.
                    pixel out p = (if alphaOf mc p > 0 then (255, 255, 255, 255)
                                   else (0, 0, 0, 255))))"
proof (cases "width mc = 0 \<or> height mc = 0")
  case True
  then show ?thesis using getMaskDataUrl_zero[of mc] by simp
next
  case False
  let ?out = "mc\<lparr>data := maskLoop 0 (data mc)\<rparr>"
  have 1: "getMaskDataUrl (Some mc) = Inr (Some ?out)"
    using False getMaskDataUrl_Some[OF assms] by simp
  have 2: "wellFormed ?out"
    using assms by (simp add: wellFormed_def maskLoop_length)
  have 3: "width ?out = width mc" "height ?out = height mc"
    by simp_all
  have 4: "\<forall>p < width mc * height mc.
             pixel ?out p = (if alphaOf mc p > 0 then (255, 255, 255, 255) else (0, 0, 0, 255))"
    using maskLoop_pixel_out[OF assms] by blast
  have "\<exists>out. getMaskDataUrl (Some mc) = Inr (Some out) \<and>
                 width out = width mc \<and> height out = height mc \<and> wellFormed out \<and>
                 (\<forall>p < width mc * height mc.
                    pixel out p = (if alphaOf mc p > 0 then (255, 255, 255, 255)
                                   else (0, 0, 0, 255)))"
    using 1 2 3 4 by (intro exI[of _ ?out] conjI)
  then show ?thesis using False by (simp only: if_False)
qed

theorem getMaskDataUrl_binary_witness:
  "wellFormed demoMask \<and> alphaOf demoMask 0 = 128 \<and> alphaOf demoMask 1 = 0 \<and>
   getMaskDataUrl (Some demoMask) = Inr (Some binaryMask) \<and>
   pixel binaryMask 0 = (255, 255, 255, 255) \<and> pixel binaryMask 1 = (0, 0, 0, 255)"
proof -
  have wf: "wellFormed demoMask"
    by (simp add: wellFormed_def demoMask_def)
  have a: "alphaOf demoMask 0 = 128" "alphaOf demoMask 1 = 0"
    by (simp_all add: alphaOf_def demoMask_def)
  have out: "getMaskDataUrl (Some demoMask) = Inr (Some binaryMask)"
    by code_simp
  have d: "width demoMask * height demoMask = 2"
    by (simp add: demoMask_def)
  from getMaskDataUrl_binary [OF wf]
  have px: "\<forall>p < 2. pixel binaryMask p =
              (if alphaOf demoMask p > 0 then (255, 255, 255, 255) else (0, 0, 0, 255))"
    unfolding out d by (simp add: demoMask_def)
  have "pixel binaryMask 0 = (255, 255, 255, 255)" "pixel binaryMask 1 = (0, 0, 0, 255)"
    using px a by simp_all
  with wf a out show ?thesis by simp
qed

section \<open>The undo history: properties\<close>

lemma sliceLast_length: "length (sliceLast n xs) = min n (length xs)"
  by (simp add: sliceLast_def)

lemma sliceLast_rev: "sliceLast n xs = rev (take n (rev xs))"
  by (simp add: sliceLast_def take_rev)

lemma saveHistory_bound:
  "length (history s) \<le> 11 \<Longrightarrow> length (history (stateOf (saveHistory s))) \<le> 11"
  by (simp add: saveHistory_def getMaskContext_def getImageData_def sliceLast_length
      split: option.splits)

lemma paintMask_history: "history (paintMask f s c) = history s"
  by (simp add: paintMask_def getMaskContext_def split: option.splits)

lemma handleMouseDown_history: "history (handleMouseDown f s e) = history s"
  by (simp add: handleMouseDown_def Let_def paintMask_history)

lemma handleMouseMove_history: "history (handleMouseMove f s e) = history s"
  by (simp add: handleMouseMove_def Let_def paintMask_history)

lemma handleMouseUp_bound:
  "length (history s) \<le> 11 \<Longrightarrow> length (history (stateOf (handleMouseUp s))) \<le> 11"
  using saveHistory_bound[of s]
  by (cases "saveHistory s") (auto simp: handleMouseUp_def)

lemma handleUndo_bound:
  "length (history s) \<le> 11 \<Longrightarrow> length (history (handleUndo s)) \<le> 11"
  by (auto simp: handleUndo_def Let_def getMaskContext_def split: option.splits)

lemma handleResetMask_bound:
  "length (history s) \<le> 11 \<Longrightarrow> length (history (stateOf (handleResetMask s))) \<le> 11"
  by (auto simp: handleResetMask_def getMaskContext_def intro: saveHistory_bound
      split: option.splits)

lemma fitImageToScreen_history:
  "fitImageToScreen s w h = Some s' \<Longrightarrow> history s' = history s"
  by (auto simp: fitImageToScreen_def Let_def split: option.splits if_splits)

lemma baseImageOnLoad_bound:
  "length (history s) \<le> 11 \<Longrightarrow> length (history (stateOf (baseImageOnLoad s w h))) \<le> 11"
  by (auto simp: baseImageOnLoad_def Let_def getImageData_def
      dest!: fitImageToScreen_history split: option.splits)

lemma maskCanvasEffect_keeps:
  "history (maskCanvasEffect p s) = history s"
  "maskCanvasRef (maskCanvasEffect p s) = maskCanvasRef s"
  by (simp_all add: maskCanvasEffect_def)

lemma afterRender_keeps:
  "history (stateOf (afterRender p r)) = history (stateOf r)"
  "maskCanvasRef (stateOf (afterRender p r)) = maskCanvasRef (stateOf r)"
  by (cases r; simp add: maskCanvasEffect_keeps)+

lemma handleEvent_bound:
  "length (history s) \<le> 11 \<Longrightarrow> length (history (stateOf (handleEvent f s ev))) \<le> 11"
proof (cases ev)
  case ApplyChanges
  then show "length (history s) \<le> 11 \<Longrightarrow> ?thesis"
    using handleResetMask_bound[of "s\<lparr>baseImage := processedImage s, processedImage := None, appState := IDLE\<rparr>"]
    by (simp add: applyChanges_def afterRender_keeps)
next
  case (BaseImageLoaded w h)
  then show "length (history s) \<le> 11 \<Longrightarrow> ?thesis"
    using baseImageOnLoad_bound[of "s\<lparr>pendingLoads := pendingLoads s - 1\<rparr>" w h]
    by simp
qed (simp_all add: handleMouseDown_history handleMouseMove_history handleMouseUp_bound
      handleUndo_bound handleResetMask_bound handleFileUpload_def maskCanvasEffect_keeps)

lemma runEvents_bound:
  "length (history s) \<le> 11 \<Longrightarrow> length (history (runEvents f s evs)) \<le> 11"
  by (induction evs arbitrary: s) (simp_all add: handleEvent_bound)

text \<open>
  C2. The undo history is bounded. With a mask canvas in place, \<open>saveHistory\<close> keeps the
  last ten entries of the history (all of them when there are fewer) and appends the mask
  as it is now, which leaves at most eleven entries; and after any run of mouse events,
  undos, mask resets, uploads, image loads and applied results from the initial state, the
  history holds at most eleven entries.
\<close>

theorem history_bounded:
  assumes "maskCanvasRef s = Some mc" and "0 < width mc" and "0 < height mc"
  shows "saveHistory s = Returned (s\<lparr>history := sliceLast 10 (history s) @ [mc]\<rparr>) \<and>
         sliceLast 10 (history s) = rev (take 10 (rev (history s))) \<and>
         length (sliceLast 10 (history s)) = min 10 (length (history s)) \<and>
         length (history (stateOf (saveHistory s))) \<le> 11 \<and>
         length (history (runEvents fillArc (initialApp c) evs)) \<le> 11"
proof -
  have "saveHistory s = Returned (s\<lparr>history := sliceLast 10 (history s) @ [mc]\<rparr>)"
    using assms by (simp add: saveHistory_def getMaskContext_def getImageData_def)
  moreover from this have "length (history (stateOf (saveHistory s))) \<le> 11"
    by (simp add: sliceLast_length)
  moreover have "length (history (runEvents fillArc (initialApp c) evs)) \<le> 11"
    by (rule runEvents_bound) (simp add: initialApp_def)
  ultimately show ?thesis
    using sliceLast_rev[of 10 "history s"] sliceLast_length[of 10 "history s"] by blast
qed

text \<open>The session of one stroke ends in the painted app.\<close>

lemma paintedApp_reached:
  "runEvents demoBrush (initialApp (Some demoContainer)) demoSession = paintedApp"
  by code_simp

theorem history_bounded_witness:
  "maskCanvasRef paintedApp = Some demoMask \<and> 0 < width demoMask \<and> 0 < height demoMask \<and>
   saveHistory paintedApp =
     Returned (paintedApp\<lparr>history := [clearMask, demoMask, demoMask]\<rparr>) \<and>
   length (history (runEvents demoBrush (initialApp (Some demoContainer))
                      (demoSession @ concat (replicate 12 demoStroke)))) = 11"
proof -
  have h: "maskCanvasRef paintedApp = Some demoMask" "0 < width demoMask" "0 < height demoMask"
    by (simp_all add: paintedApp_def demoMask_def)
  have sl: "sliceLast 10 (history paintedApp) = [clearMask, demoMask]"
    by (simp add: sliceLast_def paintedApp_def)
  have full: "11 \<le> length (history (runEvents demoBrush (initialApp (Some demoContainer))
                      (demoSession @ concat (replicate 12 demoStroke))))"
    by code_simp
  from history_bounded [OF h, of demoBrush "Some demoContainer"
         "demoSession @ concat (replicate 12 demoStroke)"]
  have "saveHistory paintedApp =
          Returned (paintedApp\<lparr>history := [clearMask, demoMask, demoMask]\<rparr>)"
    and "length (history (runEvents demoBrush (initialApp (Some demoContainer))
                      (demoSession @ concat (replicate 12 demoStroke)))) \<le> 11"
    unfolding sl by simp_all
  with h full show ?thesis by simp
qed

lemma putImageData_fits:
  assumes "wellFormed mc" and "width d = width mc" and "height d = height mc" and "wellFormed d"
  shows "putImageData d mc = d"
proof -
  have "putImageData d mc = mc\<lparr>data := data d\<rparr>"
    using assms by (intro putImageData_same) simp_all
  then show ?thesis using assms(2,3) by simp
qed

lemma handleUndo_eq:
  assumes "historyFits s"
  shows "handleUndo s =
           (if length (history s) \<le> 1 then s
            else s\<lparr>history := butlast (history s),
                   maskCanvasRef := Some (last (butlast (history s)))\<rparr>)"
proof (cases "length (history s) \<le> 1")
  case True
  then show ?thesis by (simp add: handleUndo_def)
next
  case False
  then have ne: "history s \<noteq> []" "butlast (history s) \<noteq> []"
    by (cases "history s"; cases "tl (history s)"; simp)+
  then obtain mc where mc: "maskCanvasRef s = Some mc"
    using assms by (cases "maskCanvasRef s") (auto simp: historyFits_def)
  have "last (butlast (history s)) \<in> set (history s)"
    using ne by (meson in_set_butlastD last_in_set)
  then have fit: "putImageData (last (butlast (history s))) mc = last (butlast (history s))"
    using assms mc by (intro putImageData_fits) (auto simp: historyFits_def list_all_iff)
  show ?thesis
    using False ne mc fit
    by (simp add: handleUndo_def Let_def getMaskContext_def)
qed

text \<open>
  What \<open>handleUndo\<close> does, in a state where the history fits the mask canvas: with at
  most one entry in the history it changes nothing; otherwise it removes the last entry,
  and no other, and the mask canvas becomes the entry that is now last, the state saved
  before. So \<open>handleUndo\<close> itself never removes the oldest entry of the history.
\<close>

lemma handleUndo_semantics:
  assumes "historyFits s"
  shows "handleUndo s =
           (if length (history s) \<le> 1 then s
            else s\<lparr>history := butlast (history s),
                   maskCanvasRef := Some (last (butlast (history s)))\<rparr>) \<and>
         (history s = [] \<or>
            history (handleUndo s) \<noteq> [] \<and> hd (history (handleUndo s)) = hd (history s))"
proof (cases "length (history s) \<le> 1")
  case True
  then show ?thesis by (simp add: handleUndo_def)
next
  case False
  then have ne: "history s \<noteq> []" "butlast (history s) \<noteq> []"
    by (cases "history s"; cases "tl (history s)"; simp)+
  have hd: "hd (butlast (history s)) = hd (history s)"
    using ne by (cases "history s") auto
  show ?thesis
    using False ne hd by (simp add: handleUndo_eq[OF assms])
qed

lemma handleUndo_on_paintedApp:
  "historyFits paintedApp \<and>
   handleUndo paintedApp =
     paintedApp\<lparr>history := [clearMask], maskCanvasRef := Some clearMask\<rparr> \<and>
   historyFits (handleUndo paintedApp) \<and>
   handleUndo (handleUndo paintedApp) = handleUndo paintedApp"
proof -
  have f1: "historyFits paintedApp"
    by (simp add: historyFits_def paintedApp_def demoMask_def clearMask_def wellFormed_def)
  have h: "history paintedApp = [clearMask, demoMask]"
    by (simp add: paintedApp_def)
  from handleUndo_semantics [OF f1]
  have u: "handleUndo paintedApp =
             paintedApp\<lparr>history := [clearMask], maskCanvasRef := Some clearMask\<rparr>"
    unfolding h by simp
  have f2: "historyFits (handleUndo paintedApp)"
    unfolding u by (simp add: historyFits_def clearMask_def wellFormed_def)
  from handleUndo_semantics [OF f2]
  have "handleUndo (handleUndo paintedApp) = handleUndo paintedApp"
    unfolding u by simp
  with f1 u f2 show ?thesis by simp
qed

text \<open>
  C3. Undo keeps the initial clear state: with at most one entry in the history, the
  initial clear state, \<open>handleUndo\<close> changes nothing, and otherwise it removes the last
  entry and restores the one before, so that the initial clear state is never removed
  (the comment in \<open>handleUndo\<close>: \<open>Always keep initial clear state\<close>). The code does not
  keep it, because \<open>saveHistory\<close> keeps the last ten entries only. The history starts as
  the clear state alone and still begins with it after ten strokes, with eleven entries;
  the eleventh stroke discards it. After thirteen strokes and ten undos the single entry
  left is a painted state, and so is the mask; \<open>handleUndo\<close> keeps both, and the clear
  mask is out of reach of undo.
\<close>

theorem undo_loses_initial_clear_state:
  "history (runEvents demoBrush (initialApp (Some demoContainer))
              [FileUpload demoUrl True, BaseImageLoaded 2 1]) = [clearMask] \<and>
   hd (history (runEvents demoBrush (initialApp (Some demoContainer))
              (demoSession @ concat (replicate 9 demoStroke)))) = clearMask \<and>
   length (history (runEvents demoBrush (initialApp (Some demoContainer))
              (demoSession @ concat (replicate 9 demoStroke)))) = 11 \<and>
   clearMask \<notin> set (history (runEvents demoBrush (initialApp (Some demoContainer))
              (demoSession @ concat (replicate 10 demoStroke)))) \<and>
   history (runEvents demoBrush (initialApp (Some demoContainer))
              (demoSession @ concat (replicate 12 demoStroke) @ replicate 10 Undo)) = [demoMask] \<and>
   maskCanvasRef (runEvents demoBrush (initialApp (Some demoContainer))
              (demoSession @ concat (replicate 12 demoStroke) @ replicate 10 Undo)) = Some demoMask \<and>
   demoMask \<noteq> clearMask \<and>
   handleUndo (runEvents demoBrush (initialApp (Some demoContainer))
              (demoSession @ concat (replicate 12 demoStroke) @ replicate 10 Undo)) =
     runEvents demoBrush (initialApp (Some demoContainer))
              (demoSession @ concat (replicate 12 demoStroke) @ replicate 10 Undo)"
  by code_simp

text \<open>
  A load that is still pending when another has completed replaces the mask canvas and
  the history: two uploads, the first load, a stroke, the second load.
\<close>

lemma second_load_replaces_mask:
  "history (runEvents demoBrush (initialApp (Some demoContainer))
              ([FileUpload ''data:image/png;base64,EEEE'' True, FileUpload demoUrl True,
                BaseImageLoaded 2 1] @ demoStroke)) = [clearMask, demoMask] \<and>
   history (runEvents demoBrush (initialApp (Some demoContainer))
              ([FileUpload ''data:image/png;base64,EEEE'' True, FileUpload demoUrl True,
                BaseImageLoaded 2 1] @ demoStroke @ [BaseImageLoaded 2 1])) = [clearMask] \<and>
   maskCanvasRef (runEvents demoBrush (initialApp (Some demoContainer))
              ([FileUpload ''data:image/png;base64,EEEE'' True, FileUpload demoUrl True,
                BaseImageLoaded 2 1] @ demoStroke @ [BaseImageLoaded 2 1])) = Some clearMask"
  by code_simp

text \<open>
  The invariant holds initially and every event keeps it, so it holds in every state a
  run of events reaches.
\<close>

lemma historyFits_initial: "historyFits (initialApp c)"
  by (simp add: historyFits_def initialApp_def)

lemma historyFits_cong:
  "maskCanvasRef s' = maskCanvasRef s \<Longrightarrow> history s' = history s \<Longrightarrow>
   historyFits s' = historyFits s"
  by (simp add: historyFits_def)

lemma historyFits_paintMask:
  assumes "sizePreserving f" and "historyFits s"
  shows "historyFits (paintMask f s c)"
proof (cases "maskCanvasRef s")
  case None
  then show ?thesis using assms(2) by (simp add: paintMask_def getMaskContext_def)
next
  case (Some mc)
  then show ?thesis
    using assms
    by (cases c) (simp_all add: paintMask_def getMaskContext_def historyFits_def
        sizePreserving_def wellFormed_def)
qed

lemma historyFits_handleMouseDown:
  "sizePreserving f \<Longrightarrow> historyFits s \<Longrightarrow> historyFits (handleMouseDown f s e)"
proof -
  assume f: "sizePreserving f" and s: "historyFits s"
  have a: "historyFits (s\<lparr>isDraggingRef := True, lastPosRef := Some \<lparr>p_x = clientX e, p_y = clientY e\<rparr>\<rparr>)"
    using s by (simp add: historyFits_def)
  show ?thesis
    using s a historyFits_paintMask[OF f a]
    by (simp add: handleMouseDown_def Let_def)
qed

lemma historyFits_handleMouseMove:
  "sizePreserving f \<Longrightarrow> historyFits s \<Longrightarrow> historyFits (handleMouseMove f s e)"
proof -
  assume f: "sizePreserving f" and s: "historyFits s"
  have a: "historyFits (s\<lparr>transform := t, lastPosRef := l\<rparr>)" for t l
    using s by (simp add: historyFits_def)
  show ?thesis
    using s a historyFits_paintMask[OF f s]
    by (simp add: handleMouseMove_def Let_def)
qed

lemma set_sliceLast: "set (sliceLast n xs) \<subseteq> set xs"
  by (simp add: sliceLast_def set_drop_subset)

lemma historyFits_saveHistory:
  "historyFits s \<Longrightarrow> historyFits (stateOf (saveHistory s))"
  using set_sliceLast[of 10 "history s"]
  by (cases "maskCanvasRef s")
     (auto simp: saveHistory_def getMaskContext_def getImageData_def historyFits_def
      list_all_iff)

lemma historyFits_handleMouseUp:
  "historyFits s \<Longrightarrow> historyFits (stateOf (handleMouseUp s))"
proof -
  assume s: "historyFits s"
  have a: "historyFits (x\<lparr>isDraggingRef := False, lastPosRef := None\<rparr>)" if "historyFits x" for x
    using that by (simp add: historyFits_def)
  show ?thesis
    using s a historyFits_saveHistory[OF s]
    by (cases "saveHistory s") (auto simp: handleMouseUp_def)
qed

lemma historyFits_handleResetMask:
  "historyFits s \<Longrightarrow> historyFits (stateOf (handleResetMask s))"
proof (cases "maskCanvasRef s")
  case None
  then show "historyFits s \<Longrightarrow> ?thesis"
    by (simp add: handleResetMask_def getMaskContext_def)
next
  case (Some mc)
  assume s: "historyFits s"
  have "historyFits (s\<lparr>maskCanvasRef := Some (clearRect mc)\<rparr>)"
    using s Some by (simp add: historyFits_def clearRect_def wellFormed_def)
  then show ?thesis
    using Some by (simp add: handleResetMask_def getMaskContext_def historyFits_saveHistory)
qed

lemma historyFits_handleUndo:
  assumes "historyFits s"
  shows "historyFits (handleUndo s)"
proof (cases "length (history s) \<le> 1")
  case True
  then show ?thesis using assms by (simp add: handleUndo_eq[OF assms])
next
  case False
  then have ne: "history s \<noteq> []" "butlast (history s) \<noteq> []"
    by (cases "history s"; cases "tl (history s)"; simp)+
  then obtain mc where mc: "maskCanvasRef s = Some mc"
    using assms by (cases "maskCanvasRef s") (auto simp: historyFits_def)
  have "last (butlast (history s)) \<in> set (history s)"
    using ne by (meson in_set_butlastD last_in_set)
  then have l: "width (last (butlast (history s))) = width mc"
    "height (last (butlast (history s))) = height mc" "wellFormed (last (butlast (history s)))"
    using assms mc by (auto simp: historyFits_def list_all_iff)
  have "\<forall>d \<in> set (butlast (history s)). width d = width mc \<and> height d = height mc \<and> wellFormed d"
    using assms mc by (auto simp: historyFits_def list_all_iff dest: in_set_butlastD)
  then show ?thesis
    using False l assms mc
    by (simp add: handleUndo_eq[OF assms] historyFits_def list_all_iff)
qed

lemma fitImageToScreen_keeps:
  "fitImageToScreen x a b = Some y \<Longrightarrow>
   maskCanvasRef y = maskCanvasRef x \<and> history y = history x"
  by (cases "containerRef x") (auto simp: fitImageToScreen_def Let_def split: if_splits)

lemma historyFits_baseImageOnLoad:
  assumes "historyFits s"
  shows "historyFits (stateOf (baseImageOnLoad s w h))"
proof -
  let ?mc = "clearRect (createCanvas w h)"
  let ?s1 = "s\<lparr>history := [?mc], maskCanvasRef := Some ?mc\<rparr>"
  have c: "wellFormed ?mc" "width ?mc = w" "height ?mc = h"
    by (simp_all add: clearRect_def createCanvas_def wellFormed_def)
  show ?thesis
  proof (cases "w = 0 \<or> h = 0")
    case True
    then have "baseImageOnLoad s w h = Threw IndexSizeError s"
      using c by (auto simp: baseImageOnLoad_def Let_def getImageData_def)
    then show ?thesis using assms by simp
  next
    case False
    then have s1: "historyFits ?s1"
      using c by (simp add: historyFits_def)
    have eq: "baseImageOnLoad s w h =
            Returned (case fitImageToScreen ?s1 (of_nat w) (of_nat h) of
                        None \<Rightarrow> ?s1 | Some s2 \<Rightarrow> s2)"
      using False c by (simp add: baseImageOnLoad_def Let_def getImageData_def)
    show ?thesis
    proof (cases "fitImageToScreen ?s1 (of_nat w) (of_nat h)")
      case None
      then show ?thesis using eq s1 by simp
    next
      case (Some s2)
      from fitImageToScreen_keeps[OF Some] have "historyFits s2 = historyFits ?s1"
        by (intro historyFits_cong) simp_all
      then show ?thesis using eq s1 Some by simp
    qed
  qed
qed

lemma historyFits_afterRender:
  "historyFits (stateOf (afterRender p r)) = historyFits (stateOf r)"
  by (simp add: historyFits_def afterRender_keeps)

lemma historyFits_handleEvent:
  assumes "sizePreserving f" and "historyFits s"
  shows "historyFits (stateOf (handleEvent f s ev))"
proof (cases ev)
  case (FileUpload r b)
  then show ?thesis
    using assms(2)
    by (simp add: handleFileUpload_def historyFits_def maskCanvasEffect_keeps)
next
  case (BaseImageLoaded w h)
  have "historyFits (s\<lparr>pendingLoads := pendingLoads s - 1\<rparr>)"
    using assms(2) by (simp add: historyFits_def)
  then show ?thesis
    using BaseImageLoaded assms(2) by (simp add: historyFits_baseImageOnLoad)
next
  case ApplyChanges
  have "historyFits (s\<lparr>baseImage := processedImage s, processedImage := None, appState := IDLE\<rparr>)"
    using assms(2) by (simp add: historyFits_def)
  then show ?thesis
    using ApplyChanges assms(2)
    by (simp add: applyChanges_def historyFits_handleResetMask historyFits_afterRender)
qed (simp_all add: assms historyFits_handleMouseDown historyFits_handleMouseMove
      historyFits_handleMouseUp historyFits_handleUndo historyFits_handleResetMask)

lemma historyFits_runEvents:
  "sizePreserving f \<Longrightarrow> historyFits s \<Longrightarrow> historyFits (runEvents f s evs)"
  by (induction evs arbitrary: s) (simp_all add: historyFits_handleEvent)

section \<open>Placement and erasure: properties\<close>

lemma placeInputsPresent_iff:
  "placeInputsPresent s \<longleftrightarrow>
     (\<exists>b obj mc. baseImage s = Some b \<and> b \<noteq> [] \<and> objectSource s = Some obj \<and>
                 maskCanvasRef s = Some mc)"
  by (auto simp: placeInputsPresent_def truthy_def split: option.splits)

lemma eraseInputsPresent_iff:
  "eraseInputsPresent s \<longleftrightarrow>
     (\<exists>b mc. baseImage s = Some b \<and> b \<noteq> [] \<and> maskCanvasRef s = Some mc)"
  by (auto simp: eraseInputsPresent_def truthy_def split: option.splits)

lemma handlePlaceObject_missing:
  "\<not> placeInputsPresent s \<Longrightarrow> handlePlaceObject api rsz s = (s, [Alert PlaceInputsMissing])"
  by (auto simp: placeInputsPresent_iff handlePlaceObject_def split: option.splits)

lemma handleErase_missing:
  "\<not> eraseInputsPresent s \<Longrightarrow> handleErase api rsz s = (s, [Alert EraseInputsMissing])"
  by (auto simp: eraseInputsPresent_iff handleErase_def split: option.splits)

lemma handlePlaceObject_present:
  assumes "baseImage s = Some b" and "b \<noteq> []" and "objectSource s = Some obj"
    and "maskCanvasRef s = Some mc"
  shows "handlePlaceObject api rsz s =
     (case getMaskDataUrl (Some mc) of
        Inl e \<Rightarrow> (s\<lparr>appState := IDLE\<rparr>, [ConsoleError e, Alert PlaceFailed])
      | Inr None \<Rightarrow> (s\<lparr>appState := IDLE\<rparr>, [ConsoleError MaskGenerationFailed, Alert PlaceFailed])
      | Inr (Some m) \<Rightarrow>
          (case api b m (os_data obj) (selectedModel s) of
             Inl e \<Rightarrow> (s\<lparr>appState := IDLE\<rparr>,
                       [PlaceObjectCall b m (os_data obj) (selectedModel s), ConsoleError e,
                        Alert PlaceFailed])
           | Inr r \<Rightarrow>
               (case rsz r (width mc) (height mc) of
                  None \<Rightarrow> (s\<lparr>appState := PROCESSING\<rparr>,
                            [PlaceObjectCall b m (os_data obj) (selectedModel s)])
                | Some r' \<Rightarrow> (s\<lparr>processedImage := Some r', appState := COMPARING\<rparr>,
                              [PlaceObjectCall b m (os_data obj) (selectedModel s)]))))"
  using assms
  by (simp add: handlePlaceObject_def Let_def split: sum.splits option.splits)

lemma handleErase_present:
  assumes "baseImage s = Some b" and "b \<noteq> []" and "maskCanvasRef s = Some mc"
  shows "handleErase api rsz s =
     (case getMaskDataUrl (Some mc) of
        Inl e \<Rightarrow> (s\<lparr>appState := IDLE\<rparr>, [ConsoleError e, Alert EraseFailed])
      | Inr None \<Rightarrow> (s\<lparr>appState := IDLE\<rparr>, [ConsoleError MaskGenerationFailed, Alert EraseFailed])
      | Inr (Some m) \<Rightarrow>
          (case api b m (selectedModel s) of
             Inl e \<Rightarrow> (s\<lparr>appState := IDLE\<rparr>,
                       [EraseObjectCall b m (selectedModel s), ConsoleError e, Alert EraseFailed])
           | Inr r \<Rightarrow>
               (case rsz r (width mc) (height mc) of
                  None \<Rightarrow> (s\<lparr>appState := PROCESSING\<rparr>, [EraseObjectCall b m (selectedModel s)])
                | Some r' \<Rightarrow> (s\<lparr>processedImage := Some r', appState := COMPARING\<rparr>,
                              [EraseObjectCall b m (selectedModel s)]))))"
  using assms
  by (simp add: handleErase_def Let_def split: sum.splits option.splits)

lemma place_cases:
  assumes "placeInputsPresent s"
  obtains b obj mc where "baseImage s = Some b" "b \<noteq> []" "objectSource s = Some obj"
    "maskCanvasRef s = Some mc"
  using assms by (auto simp: placeInputsPresent_iff)

lemma erase_cases:
  assumes "eraseInputsPresent s"
  obtains b mc where "baseImage s = Some b" "b \<noteq> []" "maskCanvasRef s = Some mc"
  using assms by (auto simp: eraseInputsPresent_iff)

lemma handlePlaceObject_guard:
  "handlePlaceObject api rsz s = (s, [Alert PlaceInputsMissing]) \<longleftrightarrow> \<not> placeInputsPresent s"
proof (cases "placeInputsPresent s")
  case False
  then show ?thesis by (simp add: handlePlaceObject_missing)
next
  case True
  then obtain b obj mc where "baseImage s = Some b" "b \<noteq> []" "objectSource s = Some obj"
    "maskCanvasRef s = Some mc" by (rule place_cases)
  then show ?thesis
    using True
    by (simp add: handlePlaceObject_present split: sum.splits option.splits)
qed

lemma handleErase_guard:
  "handleErase api rsz s = (s, [Alert EraseInputsMissing]) \<longleftrightarrow> \<not> eraseInputsPresent s"
proof (cases "eraseInputsPresent s")
  case False
  then show ?thesis by (simp add: handleErase_missing)
next
  case True
  then obtain b mc where "baseImage s = Some b" "b \<noteq> []" "maskCanvasRef s = Some mc"
    by (rule erase_cases)
  then show ?thesis
    using True
    by (simp add: handleErase_present split: sum.splits option.splits)
qed

lemma handlePlaceObject_call_only:
  "PlaceObjectCall b m d mdl \<in> set (snd (handlePlaceObject api rsz s)) \<Longrightarrow> placeInputsPresent s"
  by (rule ccontr) (simp add: handlePlaceObject_missing)

lemma handleErase_call_only:
  "EraseObjectCall b m mdl \<in> set (snd (handleErase api rsz s)) \<Longrightarrow> eraseInputsPresent s"
  by (rule ccontr) (simp add: handleErase_missing)

lemma handleErase_objectSource:
  "handleErase api rsz (s\<lparr>objectSource := v\<rparr>) =
     (fst (handleErase api rsz s)\<lparr>objectSource := v\<rparr>, snd (handleErase api rsz s))"
  by (simp add: handleErase_def Let_def split: option.splits sum.splits)

lemma handleErase_calls:
  assumes "baseImage s = Some base" and "base \<noteq> []"
    and "getMaskDataUrl (maskCanvasRef s) = Inr (Some msk)"
  shows "EraseObjectCall base msk (selectedModel s) \<in> set (snd (handleErase api rsz s))"
proof -
  from assms(3) obtain mc where mc: "maskCanvasRef s = Some mc"
    by (cases "maskCanvasRef s") (simp_all add: getMaskDataUrl_def)
  show ?thesis
    using assms(3) unfolding mc
    by (simp add: handleErase_present[OF assms(1,2) mc] split: sum.splits option.splits)
qed

lemma handlePlaceObject_calls:
  assumes "baseImage s = Some base" and "base \<noteq> []" and "objectSource s = Some obj"
    and "getMaskDataUrl (maskCanvasRef s) = Inr (Some msk)"
  shows "PlaceObjectCall base msk (os_data obj) (selectedModel s)
           \<in> set (snd (handlePlaceObject api rsz s))"
proof -
  from assms(4) obtain mc where mc: "maskCanvasRef s = Some mc"
    by (cases "maskCanvasRef s") (simp_all add: getMaskDataUrl_def)
  show ?thesis
    using assms(4) unfolding mc
    by (simp add: handlePlaceObject_present[OF assms(1,2,3) mc] split: sum.splits option.splits)
qed

text \<open>
  C7. The reference object is optional exactly for erasure. \<open>handlePlaceObject\<close> alerts
  and leaves the state as it is exactly when the base image, the object source or the
  mask canvas is missing; it calls the service only when all three are there, and does
  call it then once the mask has been produced. \<open>handleErase\<close> does the same with the
  base image and the mask canvas alone: the object source does not enter its guard, and
  what it does is the same whatever the object source is.
\<close>

theorem object_optional_for_erasure:
  "(handlePlaceObject placeApi rsz s = (s, [Alert PlaceInputsMissing]) \<longleftrightarrow>
      \<not> placeInputsPresent s) \<and>
   (PlaceObjectCall b m d mdl \<in> set (snd (handlePlaceObject placeApi rsz s)) \<longrightarrow>
      placeInputsPresent s) \<and>
   (baseImage s = Some base \<and> base \<noteq> [] \<and> objectSource s = Some obj \<and>
    getMaskDataUrl (maskCanvasRef s) = Inr (Some msk) \<longrightarrow>
      PlaceObjectCall base msk (os_data obj) (selectedModel s)
        \<in> set (snd (handlePlaceObject placeApi rsz s))) \<and>
   (handleErase eraseApi rsz s = (s, [Alert EraseInputsMissing]) \<longleftrightarrow>
      \<not> eraseInputsPresent s) \<and>
   (EraseObjectCall b m mdl \<in> set (snd (handleErase eraseApi rsz s)) \<longrightarrow>
      eraseInputsPresent s) \<and>
   (baseImage s = Some base \<and> base \<noteq> [] \<and>
    getMaskDataUrl (maskCanvasRef s) = Inr (Some msk) \<longrightarrow>
      EraseObjectCall base msk (selectedModel s) \<in> set (snd (handleErase eraseApi rsz s))) \<and>
   eraseInputsPresent (s\<lparr>objectSource := v\<rparr>) = eraseInputsPresent s \<and>
   handleErase eraseApi rsz (s\<lparr>objectSource := v\<rparr>) =
     (fst (handleErase eraseApi rsz s)\<lparr>objectSource := v\<rparr>, snd (handleErase eraseApi rsz s))"
  using handlePlaceObject_guard[of placeApi rsz s] handlePlaceObject_call_only[of b m d mdl placeApi rsz s]
    handlePlaceObject_calls[of s base obj msk placeApi rsz]
    handleErase_guard[of eraseApi rsz s] handleErase_call_only[of b m mdl eraseApi rsz s]
    handleErase_calls[of s base msk eraseApi rsz] handleErase_objectSource[where api = eraseApi and rsz = rsz and s = s and v = v]
  by (simp add: eraseInputsPresent_def)

lemma paintedApp_mask: "getMaskDataUrl (maskCanvasRef paintedApp) = Inr (Some binaryMask)"
  by code_simp

theorem object_optional_for_erasure_witness:
  "objectSource paintedApp = None \<and> \<not> placeInputsPresent paintedApp \<and>
   eraseInputsPresent paintedApp \<and>
   handlePlaceObject demoPlace demoResize paintedApp = (paintedApp, [Alert PlaceInputsMissing]) \<and>
   EraseObjectCall demoUrl binaryMask (selectedModel paintedApp)
     \<in> set (snd (handleErase demoErase demoResize paintedApp)) \<and>
   PlaceObjectCall demoUrl binaryMask (os_data demoObject) (selectedModel paintedApp)
     \<in> set (snd (handlePlaceObject demoPlace demoResize
                    (paintedApp\<lparr>objectSource := Some demoObject\<rparr>)))"
proof -
  let ?withObject = "paintedApp\<lparr>objectSource := Some demoObject\<rparr>"
  have h: "objectSource paintedApp = None" "\<not> placeInputsPresent paintedApp"
    "eraseInputsPresent paintedApp" "baseImage paintedApp = Some demoUrl" "demoUrl \<noteq> []"
    by (simp_all add: paintedApp_def placeInputsPresent_def eraseInputsPresent_def truthy_def
        demoUrl_def)
  have o: "baseImage ?withObject = Some demoUrl" "objectSource ?withObject = Some demoObject"
    "getMaskDataUrl (maskCanvasRef ?withObject) = Inr (Some binaryMask)"
    "selectedModel ?withObject = selectedModel paintedApp"
    using paintedApp_mask by (simp_all add: paintedApp_def)
  from object_optional_for_erasure
         [where s = paintedApp and placeApi = demoPlace and eraseApi = demoErase
            and rsz = demoResize and base = demoUrl and msk = binaryMask]
       h paintedApp_mask
  have 1: "handlePlaceObject demoPlace demoResize paintedApp =
             (paintedApp, [Alert PlaceInputsMissing])"
    and 2: "EraseObjectCall demoUrl binaryMask (selectedModel paintedApp)
              \<in> set (snd (handleErase demoErase demoResize paintedApp))"
    by blast+
  from object_optional_for_erasure
         [where s = ?withObject and placeApi = demoPlace and rsz = demoResize
            and base = demoUrl and msk = binaryMask and obj = demoObject]
       o h(5)
  have 3: "PlaceObjectCall demoUrl binaryMask (os_data demoObject) (selectedModel paintedApp)
             \<in> set (snd (handlePlaceObject demoPlace demoResize ?withObject))"
    by metis
  from h 1 2 3 show ?thesis by blast
qed

lemma handlePlaceObject_outcome:
  "fst (handlePlaceObject api rsz s) = s \<or>
   fst (handlePlaceObject api rsz s) = s\<lparr>appState := IDLE\<rparr> \<or>
   (\<exists>b obj mc m res.
      baseImage s = Some b \<and> objectSource s = Some obj \<and> maskCanvasRef s = Some mc \<and>
      getMaskDataUrl (maskCanvasRef s) = Inr (Some m) \<and>
      api b m (os_data obj) (selectedModel s) = Inr res \<and>
      (case rsz res (width mc) (height mc) of
         None \<Rightarrow> fst (handlePlaceObject api rsz s) = s\<lparr>appState := PROCESSING\<rparr>
       | Some r' \<Rightarrow> fst (handlePlaceObject api rsz s) =
                      s\<lparr>processedImage := Some r', appState := COMPARING\<rparr>))"
proof (cases "placeInputsPresent s")
  case False
  then show ?thesis by (simp add: handlePlaceObject_missing)
next
  case True
  then obtain b obj mc where p: "baseImage s = Some b" "b \<noteq> []" "objectSource s = Some obj"
    "maskCanvasRef s = Some mc" by (rule place_cases)
  show ?thesis
    unfolding handlePlaceObject_present[OF p] using p
    by (auto split: sum.splits option.splits)
qed


lemma handleErase_outcome:
  "fst (handleErase api rsz s) = s \<or>
   fst (handleErase api rsz s) = s\<lparr>appState := IDLE\<rparr> \<or>
   (\<exists>b mc m res.
      baseImage s = Some b \<and> maskCanvasRef s = Some mc \<and>
      getMaskDataUrl (maskCanvasRef s) = Inr (Some m) \<and>
      api b m (selectedModel s) = Inr res \<and>
      (case rsz res (width mc) (height mc) of
         None \<Rightarrow> fst (handleErase api rsz s) = s\<lparr>appState := PROCESSING\<rparr>
       | Some r' \<Rightarrow> fst (handleErase api rsz s) =
                      s\<lparr>processedImage := Some r', appState := COMPARING\<rparr>))"
proof (cases "eraseInputsPresent s")
  case False
  then show ?thesis by (simp add: handleErase_missing)
next
  case True
  then obtain b mc where p: "baseImage s = Some b" "b \<noteq> []" "maskCanvasRef s = Some mc"
    by (rule erase_cases)
  show ?thesis
    unfolding handleErase_present[OF p] using p
    by (auto split: sum.splits option.splits)
qed

lemma handlePlaceObject_baseImage: "baseImage (fst (handlePlaceObject api rsz s)) = baseImage s"
  using handlePlaceObject_outcome[of api rsz s] by (auto split: option.splits)

lemma handleErase_baseImage: "baseImage (fst (handleErase api rsz s)) = baseImage s"
  using handleErase_outcome[of api rsz s] by (auto split: option.splits)

lemma handlePlaceObject_mask_fails:
  assumes "placeInputsPresent s"
    and "getMaskDataUrl (maskCanvasRef s) = Inl e \<or> getMaskDataUrl (maskCanvasRef s) = Inr None"
  shows "fst (handlePlaceObject api rsz s) = s\<lparr>appState := IDLE\<rparr>"
proof -
  from assms(1) obtain b obj mc where p: "baseImage s = Some b" "b \<noteq> []"
    "objectSource s = Some obj" "maskCanvasRef s = Some mc" by (rule place_cases)
  show ?thesis
    using assms(2) unfolding handlePlaceObject_present[OF p] p(4) by auto
qed

lemma handleErase_mask_fails:
  assumes "eraseInputsPresent s"
    and "getMaskDataUrl (maskCanvasRef s) = Inl e \<or> getMaskDataUrl (maskCanvasRef s) = Inr None"
  shows "fst (handleErase api rsz s) = s\<lparr>appState := IDLE\<rparr>"
proof -
  from assms(1) obtain b mc where p: "baseImage s = Some b" "b \<noteq> []"
    "maskCanvasRef s = Some mc" by (rule erase_cases)
  show ?thesis
    using assms(2) unfolding handleErase_present[OF p] p(3) by auto
qed

lemma handlePlaceObject_api_fails:
  assumes "baseImage s = Some b" and "b \<noteq> []" and "objectSource s = Some obj"
    and "getMaskDataUrl (maskCanvasRef s) = Inr (Some m)"
    and "api b m (os_data obj) (selectedModel s) = Inl err"
  shows "fst (handlePlaceObject api rsz s) = s\<lparr>appState := IDLE\<rparr>"
proof -
  from assms(4) obtain mc where mc: "maskCanvasRef s = Some mc"
    by (cases "maskCanvasRef s") (simp_all add: getMaskDataUrl_def)
  show ?thesis
    using assms(4,5) unfolding mc
    by (simp add: handlePlaceObject_present[OF assms(1,2,3) mc])
qed

lemma handleErase_api_fails:
  assumes "baseImage s = Some b" and "b \<noteq> []"
    and "getMaskDataUrl (maskCanvasRef s) = Inr (Some m)"
    and "api b m (selectedModel s) = Inl err"
  shows "fst (handleErase api rsz s) = s\<lparr>appState := IDLE\<rparr>"
proof -
  from assms(3) obtain mc where mc: "maskCanvasRef s = Some mc"
    by (cases "maskCanvasRef s") (simp_all add: getMaskDataUrl_def)
  show ?thesis
    using assms(3,4) unfolding mc
    by (simp add: handleErase_present[OF assms(1,2) mc])
qed

lemma handlePlaceObject_success_only:
  assumes "processedImage (fst (handlePlaceObject api rsz s)) \<noteq> processedImage s \<or>
           appState (fst (handlePlaceObject api rsz s)) = COMPARING \<and> appState s \<noteq> COMPARING"
  shows "\<exists>b obj m res. baseImage s = Some b \<and> objectSource s = Some obj \<and>
           getMaskDataUrl (maskCanvasRef s) = Inr (Some m) \<and>
           api b m (os_data obj) (selectedModel s) = Inr res"
proof -
  consider (same) "fst (handlePlaceObject api rsz s) = s"
    | (idle) "fst (handlePlaceObject api rsz s) = s\<lparr>appState := IDLE\<rparr>"
    | (ok) b obj m res where "baseImage s = Some b" "objectSource s = Some obj"
        "getMaskDataUrl (maskCanvasRef s) = Inr (Some m)"
        "api b m (os_data obj) (selectedModel s) = Inr res"
    using handlePlaceObject_outcome[of api rsz s] by blast
  then show ?thesis
  proof cases
    case same
    then show ?thesis using assms by simp
  next
    case idle
    then show ?thesis using assms by simp
  next
    case ok
    then show ?thesis by blast
  qed
qed

lemma handleErase_success_only:
  assumes "processedImage (fst (handleErase api rsz s)) \<noteq> processedImage s \<or>
           appState (fst (handleErase api rsz s)) = COMPARING \<and> appState s \<noteq> COMPARING"
  shows "\<exists>b m res. baseImage s = Some b \<and>
           getMaskDataUrl (maskCanvasRef s) = Inr (Some m) \<and>
           api b m (selectedModel s) = Inr res"
proof -
  consider (same) "fst (handleErase api rsz s) = s"
    | (idle) "fst (handleErase api rsz s) = s\<lparr>appState := IDLE\<rparr>"
    | (ok) b m res where "baseImage s = Some b"
        "getMaskDataUrl (maskCanvasRef s) = Inr (Some m)"
        "api b m (selectedModel s) = Inr res"
    using handleErase_outcome[of api rsz s] by blast
  then show ?thesis
  proof cases
    case same
    then show ?thesis using assms by simp
  next
    case idle
    then show ?thesis using assms by simp
  next
    case ok
    then show ?thesis by blast
  qed
qed


lemma handlePlaceObject_success:
  assumes "baseImage s = Some b" and "b \<noteq> []" and "objectSource s = Some obj"
    and "maskCanvasRef s = Some mc"
    and "getMaskDataUrl (maskCanvasRef s) = Inr (Some m)"
    and "api b m (os_data obj) (selectedModel s) = Inr res"
    and "rsz res (width mc) (height mc) = Some resized"
  shows "fst (handlePlaceObject api rsz s) =
           s\<lparr>processedImage := Some resized, appState := COMPARING\<rparr>"
  using assms(5,6,7) unfolding assms(4)
  by (simp add: handlePlaceObject_present[OF assms(1,2,3,4)])

lemma handleErase_success:
  assumes "baseImage s = Some b" and "b \<noteq> []"
    and "maskCanvasRef s = Some mc"
    and "getMaskDataUrl (maskCanvasRef s) = Inr (Some m)"
    and "api b m (selectedModel s) = Inr res"
    and "rsz res (width mc) (height mc) = Some resized"
  shows "fst (handleErase api rsz s) =
           s\<lparr>processedImage := Some resized, appState := COMPARING\<rparr>"
  using assms(4,5,6) unfolding assms(3)
  by (simp add: handleErase_present[OF assms(1,2,3)])

text \<open>
  C8. Submission is atomic on failure. Neither handler ever changes the base image. When
  the request passes the guard and producing the mask fails, or the remote call is
  rejected, the handler ends in the state it started from with the app state \<open>IDLE\<close>, so
  the processed image is what it was. The processed image changes, or the app state
  becomes \<open>COMPARING\<close>, only when the remote call has succeeded; and when it has, and the
  result has been decoded, the processed image is the resized result and the app state is
  \<open>COMPARING\<close>.
\<close>

theorem submission_atomic_on_failure:
  "baseImage (fst (handlePlaceObject placeApi rsz s)) = baseImage s \<and>
   baseImage (fst (handleErase eraseApi rsz s)) = baseImage s \<and>
   (placeInputsPresent s \<and>
    (getMaskDataUrl (maskCanvasRef s) = Inl e \<or> getMaskDataUrl (maskCanvasRef s) = Inr None) \<longrightarrow>
      fst (handlePlaceObject placeApi rsz s) = s\<lparr>appState := IDLE\<rparr>) \<and>
   (eraseInputsPresent s \<and>
    (getMaskDataUrl (maskCanvasRef s) = Inl e \<or> getMaskDataUrl (maskCanvasRef s) = Inr None) \<longrightarrow>
      fst (handleErase eraseApi rsz s) = s\<lparr>appState := IDLE\<rparr>) \<and>
   (baseImage s = Some b \<and> b \<noteq> [] \<and> objectSource s = Some obj \<and>
    getMaskDataUrl (maskCanvasRef s) = Inr (Some m) \<and>
    placeApi b m (os_data obj) (selectedModel s) = Inl err \<longrightarrow>
      fst (handlePlaceObject placeApi rsz s) = s\<lparr>appState := IDLE\<rparr>) \<and>
   (baseImage s = Some b \<and> b \<noteq> [] \<and>
    getMaskDataUrl (maskCanvasRef s) = Inr (Some m) \<and>
    eraseApi b m (selectedModel s) = Inl err \<longrightarrow>
      fst (handleErase eraseApi rsz s) = s\<lparr>appState := IDLE\<rparr>) \<and>
   (processedImage (fst (handlePlaceObject placeApi rsz s)) \<noteq> processedImage s \<or>
    appState (fst (handlePlaceObject placeApi rsz s)) = COMPARING \<and> appState s \<noteq> COMPARING \<longrightarrow>
      (\<exists>b' obj' m' res. baseImage s = Some b' \<and> objectSource s = Some obj' \<and>
         getMaskDataUrl (maskCanvasRef s) = Inr (Some m') \<and>
         placeApi b' m' (os_data obj') (selectedModel s) = Inr res)) \<and>
   (processedImage (fst (handleErase eraseApi rsz s)) \<noteq> processedImage s \<or>
    appState (fst (handleErase eraseApi rsz s)) = COMPARING \<and> appState s \<noteq> COMPARING \<longrightarrow>
      (\<exists>b' m' res. baseImage s = Some b' \<and>
         getMaskDataUrl (maskCanvasRef s) = Inr (Some m') \<and>
         eraseApi b' m' (selectedModel s) = Inr res)) \<and>
   (baseImage s = Some b \<and> b \<noteq> [] \<and> objectSource s = Some obj \<and>
    maskCanvasRef s = Some mc \<and> getMaskDataUrl (maskCanvasRef s) = Inr (Some m) \<and>
    placeApi b m (os_data obj) (selectedModel s) = Inr result \<and>
    rsz result (width mc) (height mc) = Some resized \<longrightarrow>
      fst (handlePlaceObject placeApi rsz s) =
        s\<lparr>processedImage := Some resized, appState := COMPARING\<rparr>) \<and>
   (baseImage s = Some b \<and> b \<noteq> [] \<and>
    maskCanvasRef s = Some mc \<and> getMaskDataUrl (maskCanvasRef s) = Inr (Some m) \<and>
    eraseApi b m (selectedModel s) = Inr result \<and>
    rsz result (width mc) (height mc) = Some resized \<longrightarrow>
      fst (handleErase eraseApi rsz s) =
        s\<lparr>processedImage := Some resized, appState := COMPARING\<rparr>)"
proof (intro conjI impI)
  show "baseImage (fst (handlePlaceObject placeApi rsz s)) = baseImage s"
    by (rule handlePlaceObject_baseImage)
  show "baseImage (fst (handleErase eraseApi rsz s)) = baseImage s"
    by (rule handleErase_baseImage)
qed (blast intro: handlePlaceObject_mask_fails handleErase_mask_fails
      handlePlaceObject_api_fails handleErase_api_fails
      handlePlaceObject_success_only handleErase_success_only
      handlePlaceObject_success handleErase_success)+

theorem submission_atomic_on_failure_witness:
  "fst (handleErase failingErase demoResize busyApp) = busyApp\<lparr>appState := IDLE\<rparr> \<and>
   fst (handlePlaceObject failingPlace demoResize (busyApp\<lparr>objectSource := Some demoObject\<rparr>)) =
     busyApp\<lparr>objectSource := Some demoObject, appState := IDLE\<rparr> \<and>
   fst (handleErase demoErase demoResize emptyMaskApp) = emptyMaskApp\<lparr>appState := IDLE\<rparr> \<and>
   fst (handleErase demoErase demoResize paintedApp) =
     paintedApp\<lparr>processedImage := Some ''data:image/png;base64,DDDD'', appState := COMPARING\<rparr> \<and>
   (\<exists>b m res. baseImage paintedApp = Some b \<and>
      getMaskDataUrl (maskCanvasRef paintedApp) = Inr (Some m) \<and>
      demoErase b m (selectedModel paintedApp) = Inr res) \<and>
   fst (handlePlaceObject demoPlace demoResize (emptyMaskApp\<lparr>objectSource := Some demoObject\<rparr>)) =
     emptyMaskApp\<lparr>objectSource := Some demoObject, appState := IDLE\<rparr> \<and>
   fst (handlePlaceObject demoPlace demoResize (paintedApp\<lparr>objectSource := Some demoObject\<rparr>)) =
     paintedApp\<lparr>objectSource := Some demoObject,
                processedImage := Some ''data:image/png;base64,CCCC'', appState := COMPARING\<rparr> \<and>
   (\<exists>b obj m res. baseImage (paintedApp\<lparr>objectSource := Some demoObject\<rparr>) = Some b \<and>
      objectSource (paintedApp\<lparr>objectSource := Some demoObject\<rparr>) = Some obj \<and>
      getMaskDataUrl (maskCanvasRef (paintedApp\<lparr>objectSource := Some demoObject\<rparr>)) = Inr (Some m) \<and>
      demoPlace b m (os_data obj) (selectedModel (paintedApp\<lparr>objectSource := Some demoObject\<rparr>)) =
        Inr res)"
proof -
  let ?busyObject = "busyApp\<lparr>objectSource := Some demoObject\<rparr>"
  let ?emptyObject = "emptyMaskApp\<lparr>objectSource := Some demoObject\<rparr>"
  let ?withObject = "paintedApp\<lparr>objectSource := Some demoObject\<rparr>"
  have u: "demoUrl \<noteq> []"
    by (simp add: demoUrl_def)
  have busy: "baseImage busyApp = Some demoUrl"
    "getMaskDataUrl (maskCanvasRef busyApp) = Inr (Some binaryMask)"
    "failingErase demoUrl binaryMask (selectedModel busyApp) =
       Inl (RemoteError ''No image returned from erase operation.'')"
    using paintedApp_mask by (simp_all add: busyApp_def paintedApp_def failingErase_def)
  from submission_atomic_on_failure
         [where s = busyApp and eraseApi = failingErase and rsz = demoResize and b = demoUrl
            and m = binaryMask and err = "RemoteError ''No image returned from erase operation.''"]
       busy u
  have 1: "fst (handleErase failingErase demoResize busyApp) = busyApp\<lparr>appState := IDLE\<rparr>"
    by blast
  have busyo: "baseImage ?busyObject = Some demoUrl" "objectSource ?busyObject = Some demoObject"
    "getMaskDataUrl (maskCanvasRef ?busyObject) = Inr (Some binaryMask)"
    "failingPlace demoUrl binaryMask (os_data demoObject) (selectedModel ?busyObject) =
       Inl (RemoteError ''No image returned from placement operation.'')"
    using paintedApp_mask by (simp_all add: busyApp_def paintedApp_def failingPlace_def)
  from submission_atomic_on_failure
         [where s = ?busyObject and placeApi = failingPlace and rsz = demoResize and b = demoUrl
            and obj = demoObject and m = binaryMask
            and err = "RemoteError ''No image returned from placement operation.''"]
       busyo u
  have 2: "fst (handlePlaceObject failingPlace demoResize ?busyObject) =
             ?busyObject\<lparr>appState := IDLE\<rparr>"
    by blast
  have em: "eraseInputsPresent emptyMaskApp"
    "getMaskDataUrl (maskCanvasRef emptyMaskApp) = Inl InvalidStateError"
    by code_simp+
  from submission_atomic_on_failure
         [where s = emptyMaskApp and eraseApi = demoErase and rsz = demoResize
            and e = InvalidStateError] em
  have 3: "fst (handleErase demoErase demoResize emptyMaskApp) = emptyMaskApp\<lparr>appState := IDLE\<rparr>"
    by blast
  have ok: "baseImage paintedApp = Some demoUrl" "maskCanvasRef paintedApp = Some demoMask"
    "demoErase demoUrl binaryMask (selectedModel paintedApp) = Inr ''data:image/png;base64,DDDD''"
    "demoResize ''data:image/png;base64,DDDD'' (width demoMask) (height demoMask) =
       Some ''data:image/png;base64,DDDD''"
    by (simp_all add: paintedApp_def demoErase_def demoResize_def)
  from submission_atomic_on_failure
         [where s = paintedApp and eraseApi = demoErase and rsz = demoResize and b = demoUrl
            and m = binaryMask and mc = demoMask and result = "''data:image/png;base64,DDDD''"
            and resized = "''data:image/png;base64,DDDD''"]
       ok u paintedApp_mask
  have 4: "fst (handleErase demoErase demoResize paintedApp) =
             paintedApp\<lparr>processedImage := Some ''data:image/png;base64,DDDD'',
                        appState := COMPARING\<rparr>"
    by blast
  have ch: "processedImage (fst (handleErase demoErase demoResize paintedApp)) \<noteq>
            processedImage paintedApp"
    unfolding 4 by (simp add: paintedApp_def)
  from submission_atomic_on_failure
         [where s = paintedApp and eraseApi = demoErase and rsz = demoResize] ch
  have 5: "\<exists>b m res. baseImage paintedApp = Some b \<and>
      getMaskDataUrl (maskCanvasRef paintedApp) = Inr (Some m) \<and>
      demoErase b m (selectedModel paintedApp) = Inr res"
    by blast
  have emo: "placeInputsPresent ?emptyObject"
    "getMaskDataUrl (maskCanvasRef ?emptyObject) = Inl InvalidStateError"
    by code_simp+
  from submission_atomic_on_failure
         [where s = ?emptyObject and placeApi = demoPlace and rsz = demoResize
            and e = InvalidStateError] emo
  have 6: "fst (handlePlaceObject demoPlace demoResize ?emptyObject) =
             ?emptyObject\<lparr>appState := IDLE\<rparr>"
    by blast
  have oko: "baseImage ?withObject = Some demoUrl" "objectSource ?withObject = Some demoObject"
    "maskCanvasRef ?withObject = Some demoMask"
    "getMaskDataUrl (maskCanvasRef ?withObject) = Inr (Some binaryMask)"
    "demoPlace demoUrl binaryMask (os_data demoObject) (selectedModel ?withObject) =
       Inr ''data:image/png;base64,CCCC''"
    "demoResize ''data:image/png;base64,CCCC'' (width demoMask) (height demoMask) =
       Some ''data:image/png;base64,CCCC''"
    using paintedApp_mask by (simp_all add: paintedApp_def demoPlace_def demoResize_def)
  from submission_atomic_on_failure
         [where s = ?withObject and placeApi = demoPlace and rsz = demoResize and b = demoUrl
            and obj = demoObject and m = binaryMask and mc = demoMask
            and result = "''data:image/png;base64,CCCC''"
            and resized = "''data:image/png;base64,CCCC''"]
       oko u
  have 7: "fst (handlePlaceObject demoPlace demoResize ?withObject) =
             ?withObject\<lparr>processedImage := Some ''data:image/png;base64,CCCC'',
                         appState := COMPARING\<rparr>"
    by blast
  have cho: "processedImage (fst (handlePlaceObject demoPlace demoResize ?withObject)) \<noteq>
             processedImage ?withObject"
    unfolding 7 by (simp add: paintedApp_def)
  from submission_atomic_on_failure
         [where s = ?withObject and placeApi = demoPlace and rsz = demoResize] cho
  have 8: "\<exists>b obj m res. baseImage ?withObject = Some b \<and>
      objectSource ?withObject = Some obj \<and>
      getMaskDataUrl (maskCanvasRef ?withObject) = Inr (Some m) \<and>
      demoPlace b m (os_data obj) (selectedModel ?withObject) = Inr res"
    by blast
  from 1 2 3 4 5 6 7 8 show ?thesis by simp
qed

end
